theory Spec2Isabelle
  imports Complex_Main
begin

section \<open>The resilient API-access layer of the weather application\<close>

text \<open>
  A shallow embedding of \<^verbatim>\<open>src/utils/errorHandling.ts\<close>, \<^verbatim>\<open>CacheService\<close>,
  \<^verbatim>\<open>LocationService\<close> and \<^verbatim>\<open>WeatherService\<close>.

  Conventions of the embedding.
  \<^item> \<^verbatim>\<open>Date.now()\<close> is an integer number of milliseconds (\<open>int\<close>).
  \<^item> A JavaScript number is \<open>NaN\<close> or an exact real; the rounding error of
    IEEE doubles and the two infinities are not represented.
  \<^item> A JavaScript string is a \<open>string\<close> of ASCII characters; case mapping and white
    space beyond ASCII are not represented.
  \<^item> A thrown value is either an \<^verbatim>\<open>AppError\<close> object (it has a \<^verbatim>\<open>type\<close> property) or
    an \<^verbatim>\<open>Error\<close> with a name and a message.
\<close>

subsection \<open>Error taxonomy (\<^verbatim>\<open>types/error.ts\<close>)\<close>

datatype ErrorType = Network | Api | Data | User

record JsError =
  errName :: string
  errMessage :: string

record AppError =
  errType :: ErrorType
  message :: string
  retryable :: bool
  originalError :: "JsError option"

definition createAppError :: "ErrorType \<Rightarrow> string \<Rightarrow> bool \<Rightarrow> JsError option \<Rightarrow> AppError" where
  "createAppError ty msg retry orig =
     \<lparr>errType = ty, message = msg, retryable = retry, originalError = orig\<rparr>"

datatype thrown = AppErr AppError | JsErr JsError

subsection \<open>Rate limiting (\<^verbatim>\<open>RateLimitHandler\<close>)\<close>

record RateWindow =
  count :: nat
  resetTime :: int

definition RATE_LIMIT_WINDOW :: int where
  "RATE_LIMIT_WINDOW = 60000"

definition MAX_REQUESTS_PER_WINDOW :: nat where
  "MAX_REQUESTS_PER_WINDOW = 60"

text \<open>
  \<^verbatim>\<open>checkRateLimit(serviceKey)\<close>, with the reading of \<^verbatim>\<open>Date.now()\<close> and the static map
  \<^verbatim>\<open>requestCounts\<close> passed in; the map is returned as the call leaves it.
\<close>

definition checkRateLimit ::
  "string \<Rightarrow> int \<Rightarrow> (string \<rightharpoonup> RateWindow) \<Rightarrow> bool \<times> (string \<rightharpoonup> RateWindow)" where
  "checkRateLimit serviceKey now requestCounts =
     (case requestCounts serviceKey of
        None \<Rightarrow>
          (True, requestCounts(serviceKey \<mapsto> \<lparr>count = 1, resetTime = now + RATE_LIMIT_WINDOW\<rparr>))
      | Some current \<Rightarrow>
          if now > resetTime current then
            (True, requestCounts(serviceKey \<mapsto> \<lparr>count = 1, resetTime = now + RATE_LIMIT_WINDOW\<rparr>))
          else if count current \<ge> MAX_REQUESTS_PER_WINDOW then
            (False, requestCounts)
          else
            (True, requestCounts(serviceKey \<mapsto> current\<lparr>count := count current + 1\<rparr>)))"

text \<open>\<^verbatim>\<open>getResetTime(serviceKey)\<close>: milliseconds until the window of the key resets.\<close>

definition getResetTime :: "string \<Rightarrow> int \<Rightarrow> (string \<rightharpoonup> RateWindow) \<Rightarrow> int" where
  "getResetTime serviceKey now requestCounts =
     (case requestCounts serviceKey of
        None \<Rightarrow> 0
      | Some current \<Rightarrow> max 0 (resetTime current - now))"

text \<open>
  A run of calls of \<^verbatim>\<open>checkRateLimit\<close> on one key, the clock reading \<open>t\<close> of each call
  given in order: the answers in order, and the map after the last call.
\<close>

fun checkRateLimitCalls ::
  "string \<Rightarrow> int list \<Rightarrow> (string \<rightharpoonup> RateWindow) \<Rightarrow> bool list \<times> (string \<rightharpoonup> RateWindow)" where
  "checkRateLimitCalls serviceKey [] m = ([], m)"
| "checkRateLimitCalls serviceKey (t # ts) m =
     (let (b, m') = checkRateLimit serviceKey t m;
          (bs, m'') = checkRateLimitCalls serviceKey ts m'
      in (b # bs, m''))"

subsection \<open>JavaScript strings\<close>

text \<open>\<^verbatim>\<open>\s\<close> and \<^verbatim>\<open>trim()\<close>: tab, line feed, vertical tab, form feed, carriage return
  and space are the white space of ASCII.\<close>

definition isWhiteSpace :: "char \<Rightarrow> bool" where
  "isWhiteSpace c = (c \<in> set [CHR 0x09, CHR 0x0A, CHR 0x0B, CHR 0x0C, CHR 0x0D, CHR '' ''])"

definition trim :: "string \<Rightarrow> string" where
  "trim s = rev (dropWhile isWhiteSpace (rev (dropWhile isWhiteSpace s)))"

text \<open>\<^verbatim>\<open>toLowerCase()\<close> on ASCII: the capitals \<^verbatim>\<open>A-Z\<close> become \<^verbatim>\<open>a-z\<close>.\<close>

definition toLowerChar :: "char \<Rightarrow> char" where
  "toLowerChar c =
     (case map_of (zip ''ABCDEFGHIJKLMNOPQRSTUVWXYZ'' ''abcdefghijklmnopqrstuvwxyz'') c of
        Some l \<Rightarrow> l
      | None \<Rightarrow> c)"

definition toLowerCase :: "string \<Rightarrow> string" where
  "toLowerCase s = map toLowerChar s"

text \<open>\<^verbatim>\<open>replace(/\s+/g, ' ')\<close>: every maximal run of white space becomes one space.\<close>

function collapseWhitespace :: "string \<Rightarrow> string" where
  "collapseWhitespace [] = []"
| "collapseWhitespace (c # cs) =
     (if isWhiteSpace c then CHR '' '' # collapseWhitespace (dropWhile isWhiteSpace cs)
      else c # collapseWhitespace cs)"
  by pat_completeness auto
termination
  by (relation "measure length") (auto simp: length_dropWhile_le less_Suc_eq_le)

text \<open>\<^verbatim>\<open>s.includes(sub)\<close>.\<close>

fun strIncludes :: "string \<Rightarrow> string \<Rightarrow> bool" where
  "strIncludes [] sub = (sub = [])"
| "strIncludes (c # cs) sub = (take (length sub) (c # cs) = sub \<or> strIncludes cs sub)"

text \<open>\<^verbatim>\<open>String(n)\<close> of a natural number: its decimal digits.\<close>

definition digitChar :: "nat \<Rightarrow> char" where
  "digitChar d = ''0123456789'' ! (d mod 10)"

fun showNat :: "nat \<Rightarrow> string" where
  "showNat n = (if n < 10 then [digitChar n] else showNat (n div 10) @ [digitChar (n mod 10)])"

declare showNat.simps [simp del]

subsection \<open>JavaScript numbers and values\<close>

datatype jsnum = NaN | Num real

text \<open>The comparisons \<^verbatim>\<open><\<close> and \<^verbatim>\<open>>\<close>: false as soon as one side is \<^verbatim>\<open>NaN\<close>.\<close>

fun numLess :: "jsnum \<Rightarrow> jsnum \<Rightarrow> bool" where
  "numLess (Num a) (Num b) = (a < b)"
| "numLess _ _ = False"

definition numGreater :: "jsnum \<Rightarrow> jsnum \<Rightarrow> bool" where
  "numGreater a b = numLess b a"

datatype json =
    JUndefined
  | JNull
  | JBool bool
  | JNum jsnum
  | JStr string
  | JArr "json list"
  | JObj "(string \<times> json) list"

text \<open>The test \<^verbatim>\<open>if (v)\<close> and its negation \<^verbatim>\<open>!v\<close>.\<close>

fun truthy :: "json \<Rightarrow> bool" where
  "truthy JUndefined = False"
| "truthy JNull = False"
| "truthy (JBool b) = b"
| "truthy (JNum NaN) = False"
| "truthy (JNum (Num r)) = (r \<noteq> 0)"
| "truthy (JStr s) = (s \<noteq> [])"
| "truthy (JArr _) = True"
| "truthy (JObj _) = True"

definition typeofNumber :: "json \<Rightarrow> bool" where
  "typeofNumber v = (case v of JNum _ \<Rightarrow> True | _ \<Rightarrow> False)"

definition typeofString :: "json \<Rightarrow> bool" where
  "typeofString v = (case v of JStr _ \<Rightarrow> True | _ \<Rightarrow> False)"

subsection \<open>Plain objects used as dictionaries\<close>

text \<open>
  An object is the list of its own properties in the order \<^verbatim>\<open>Object.entries\<close> and
  \<^verbatim>\<open>JSON.stringify\<close> enumerate them: keys that are array indices (canonical decimal
  strings below \<open>2^32 - 1\<close>) first, ascending, then the other keys in the order of
  their creation.
\<close>

type_synonym 'a jsobject = "(string \<times> 'a) list"

definition isDigit :: "char \<Rightarrow> bool" where
  "isDigit c = (c \<in> set ''0123456789'')"

definition digitValue :: "char \<Rightarrow> int" where
  "digitValue c = int (length (takeWhile (\<lambda>d. d \<noteq> c) ''0123456789''))"

definition digitsValue :: "string \<Rightarrow> int" where
  "digitsValue s = foldl (\<lambda>acc c. 10 * acc + digitValue c) 0 s"

definition arrayIndex :: "string \<Rightarrow> int option" where
  "arrayIndex k =
     (if k \<noteq> [] \<and> list_all isDigit k \<and> (k = ''0'' \<or> hd k \<noteq> CHR ''0'')
         \<and> length k \<le> 10 \<and> digitsValue k < 4294967295
      then Some (digitsValue k) else None)"

definition objGet :: "'a jsobject \<Rightarrow> string \<Rightarrow> 'a option" where
  "objGet obj k = map_of obj k"

text \<open>Whether a property comes before the array index \<open>n\<close> in the enumeration: its key
  is a smaller array index.\<close>

definition precedesIndex :: "int \<Rightarrow> string \<times> 'a \<Rightarrow> bool" where
  "precedesIndex n p = (case arrayIndex (fst p) of Some n' \<Rightarrow> n' < n | None \<Rightarrow> False)"

text \<open>\<^verbatim>\<open>obj[k] = v\<close>: an existing property keeps its place; a new array index goes
  behind the smaller array indices; any other new key goes to the end.\<close>

definition objSet :: "string \<Rightarrow> 'a \<Rightarrow> 'a jsobject \<Rightarrow> 'a jsobject" where
  "objSet k v obj =
     (if k \<in> fst ` set obj
      then map (\<lambda>p. if fst p = k then (k, v) else p) obj
      else case arrayIndex k of
             Some n \<Rightarrow> takeWhile (precedesIndex n) obj @ (k, v) # dropWhile (precedesIndex n) obj
           | None \<Rightarrow> obj @ [(k, v)])"

text \<open>\<^verbatim>\<open>delete obj[k]\<close>.\<close>

definition objDelete :: "string \<Rightarrow> 'a jsobject \<Rightarrow> 'a jsobject" where
  "objDelete k obj = filter (\<lambda>p. fst p \<noteq> k) obj"

subsection \<open>Domain data (\<^verbatim>\<open>types/location.ts\<close>, \<^verbatim>\<open>types/weather.ts\<close>, \<^verbatim>\<open>config\<close>)\<close>

text \<open>
  The fields of a \<^verbatim>\<open>Location\<close> hold whatever value the raw record had: TypeScript's
  types are erased at run time, so what a field holds is a matter of the validation.
  A \<^verbatim>\<open>Date\<close> is its time value in milliseconds.
\<close>

record Location =
  locId :: json
  locName :: json
  locCountry :: json
  locAdmin1 :: json
  locLatitude :: json
  locLongitude :: json

record CurrentWeatherData =
  cwTemperature :: json
  cwWeatherCode :: json
  cwWindSpeed :: json
  cwWindDirection :: json
  cwHumidity :: json
  cwTimestamp :: int

record ForecastData =
  fcDate :: int
  fcTemperatureMax :: json
  fcTemperatureMin :: json
  fcWeatherCode :: json
  fcPrecipitationSum :: json

record WeatherCacheData =
  current :: CurrentWeatherData
  forecast :: "ForecastData list"

record Config =
  weatherApiBaseUrl :: string
  geocodingApiBaseUrl :: string
  maxLocationResults :: nat
  forecastDays :: nat
  cacheDurationMinutes :: nat

subsection \<open>The expiring cache (\<^verbatim>\<open>CacheService\<close>)\<close>

record 'a CacheEntry =
  data :: 'a
  timestamp :: int
  expiresAt :: int

text \<open>
  \<^verbatim>\<open>localStorage\<close> holds one item per cache. An item is missing, or a text that
  \<^verbatim>\<open>JSON.parse\<close> rejects, or the object written by an earlier \<^verbatim>\<open>setItem\<close> (the
  round trip through \<^verbatim>\<open>JSON.stringify\<close> and \<^verbatim>\<open>JSON.parse\<close> is taken as the identity).
  \<^verbatim>\<open>setItem\<close> throws when the store does not accept the write (quota, disabled
  storage); \<open>acceptsWrites\<close> says whether it does.
\<close>

datatype 'a item = Missing | Unparsable | Item 'a

record storage =
  locationItem :: "Location list CacheEntry jsobject item"
  weatherItem :: "WeatherCacheData CacheEntry jsobject item"
  acceptsWrites :: bool

definition LOCATION_CACHE_DURATION :: int where
  "LOCATION_CACHE_DURATION = 24 * 60 * 60 * 1000"

definition WEATHER_CACHE_DURATION :: "Config \<Rightarrow> int" where
  "WEATHER_CACHE_DURATION cfg = int (cacheDurationMinutes cfg) * 60 * 1000"

definition MAX_LOCATION_CACHE_SIZE :: nat where
  "MAX_LOCATION_CACHE_SIZE = 50"

text \<open>\<^verbatim>\<open>localStorage.setItem(KEY, JSON.stringify(cache))\<close>; \<open>None\<close> when it throws.\<close>

definition setLocationItem :: "Location list CacheEntry jsobject \<Rightarrow> storage \<Rightarrow> storage option" where
  "setLocationItem cache st =
     (if acceptsWrites st then Some (st\<lparr>locationItem := Item cache\<rparr>) else None)"

definition setWeatherItem :: "WeatherCacheData CacheEntry jsobject \<Rightarrow> storage \<Rightarrow> storage option" where
  "setWeatherItem cache st =
     (if acceptsWrites st then Some (st\<lparr>weatherItem := Item cache\<rparr>) else None)"

text \<open>\<^verbatim>\<open>getLocationCache\<close> and \<^verbatim>\<open>getWeatherCache\<close>: a missing or unparsable item reads
  as the empty object.\<close>

definition getLocationCache :: "storage \<Rightarrow> Location list CacheEntry jsobject" where
  "getLocationCache st = (case locationItem st of Item cache \<Rightarrow> cache | _ \<Rightarrow> [])"

definition getWeatherCache :: "storage \<Rightarrow> WeatherCacheData CacheEntry jsobject" where
  "getWeatherCache st = (case weatherItem st of Item cache \<Rightarrow> cache | _ \<Rightarrow> [])"

text \<open>\<^verbatim>\<open>normalizeQuery\<close>.\<close>

definition normalizeQuery :: "string \<Rightarrow> string" where
  "normalizeQuery query = collapseWhitespace (trim (toLowerCase query))"

text \<open>
  \<^verbatim>\<open>getWeatherCacheKey\<close>. \<^verbatim>\<open>Math.round\<close> rounds to the nearest integer, halves upwards;
  \<open>NaN\<close> stays \<open>NaN\<close>. The template string renders a number of hundredths with its
  sign, its integer part and at most two decimals, the way \<^verbatim>\<open>Number.prototype.toString\<close>
  does below \<open>10^21\<close>.
\<close>

definition roundHundredths :: "jsnum \<Rightarrow> int option" where
  "roundHundredths x = (case x of NaN \<Rightarrow> None | Num r \<Rightarrow> Some \<lfloor>r * 100 + 1 / 2\<rfloor>)"

definition showHundredths :: "int option \<Rightarrow> string" where
  "showHundredths x =
     (case x of
        None \<Rightarrow> ''NaN''
      | Some n \<Rightarrow>
          (let a = nat \<bar>n\<bar>; whole = a div 100; frac = a mod 100
           in (if n < 0 then ''-'' else '''') @ showNat whole @
              (if frac = 0 then ''''
               else if frac mod 10 = 0 then ''.'' @ showNat (frac div 10)
               else ''.'' @ showNat (frac div 10) @ showNat (frac mod 10))))"

definition getWeatherCacheKey :: "jsnum \<Rightarrow> jsnum \<Rightarrow> string" where
  "getWeatherCacheKey lat lon =
     (let roundedLat = roundHundredths lat; roundedLon = roundHundredths lon
      in showHundredths roundedLat @ '','' @ showHundredths roundedLon)"

text \<open>
  \<^verbatim>\<open>limitCacheSize\<close>: beyond \<open>maxSize\<close> entries, the entries are sorted by \<open>timestamp\<close>
  (a stable sort, oldest first) and the excess ones at the front are deleted.
\<close>

definition limitCacheSize :: "'a CacheEntry jsobject \<Rightarrow> nat \<Rightarrow> 'a CacheEntry jsobject" where
  "limitCacheSize cache maxSize =
     (let entries = cache
      in if length entries \<le> maxSize then cache
         else fold (\<lambda>entry. objDelete (fst entry))
                (take (length entries - maxSize) (sort_key (\<lambda>entry. timestamp (snd entry)) entries))
                cache)"

text \<open>
  \<^verbatim>\<open>cacheLocationSearch(query, locations)\<close> at clock reading \<open>now\<close>. A throwing
  \<^verbatim>\<open>setItem\<close> is caught and logged: the store is then as it was.
\<close>

definition cacheLocationSearch :: "string \<Rightarrow> Location list \<Rightarrow> int \<Rightarrow> storage \<Rightarrow> storage" where
  "cacheLocationSearch query locations now st =
     (let cacheKey = normalizeQuery query;
          cache = getLocationCache st;
          cache = objSet cacheKey
                    \<lparr>data = locations, timestamp = now,
                     expiresAt = now + LOCATION_CACHE_DURATION\<rparr> cache;
          cache = limitCacheSize cache MAX_LOCATION_CACHE_SIZE
      in case setLocationItem cache st of Some st' \<Rightarrow> st' | None \<Rightarrow> st)"

text \<open>\<^verbatim>\<open>getCachedLocationSearch(query)\<close>: the cached list or \<open>None\<close> for \<^verbatim>\<open>null\<close>, and
  the store as the call leaves it.\<close>

definition getCachedLocationSearch ::
  "string \<Rightarrow> int \<Rightarrow> storage \<Rightarrow> Location list option \<times> storage" where
  "getCachedLocationSearch query now st =
     (let cacheKey = normalizeQuery query;
          cache = getLocationCache st
      in case objGet cache cacheKey of
           None \<Rightarrow> (None, st)
         | Some entry \<Rightarrow>
             if now > expiresAt entry then
               (case setLocationItem (objDelete cacheKey cache) st of
                  Some st' \<Rightarrow> (None, st')
                | None \<Rightarrow> (None, st))
             else (Some (data entry), st))"

text \<open>\<^verbatim>\<open>cacheWeatherData(lat, lon, current, forecast)\<close>.\<close>

definition cacheWeatherData ::
  "Config \<Rightarrow> jsnum \<Rightarrow> jsnum \<Rightarrow> CurrentWeatherData \<Rightarrow> ForecastData list \<Rightarrow> int
     \<Rightarrow> storage \<Rightarrow> storage" where
  "cacheWeatherData cfg lat lon cur fc now st =
     (let cacheKey = getWeatherCacheKey lat lon;
          cache = getWeatherCache st;
          cache = objSet cacheKey
                    \<lparr>data = \<lparr>current = cur, forecast = fc\<rparr>, timestamp = now,
                     expiresAt = now + WEATHER_CACHE_DURATION cfg\<rparr> cache
      in case setWeatherItem cache st of Some st' \<Rightarrow> st' | None \<Rightarrow> st)"

text \<open>\<^verbatim>\<open>getCachedWeatherData(lat, lon)\<close>.\<close>

definition getCachedWeatherData ::
  "jsnum \<Rightarrow> jsnum \<Rightarrow> int \<Rightarrow> storage \<Rightarrow> WeatherCacheData option \<times> storage" where
  "getCachedWeatherData lat lon now st =
     (let cacheKey = getWeatherCacheKey lat lon;
          cache = getWeatherCache st
      in case objGet cache cacheKey of
           None \<Rightarrow> (None, st)
         | Some entry \<Rightarrow>
             if now > expiresAt entry then
               (case setWeatherItem (objDelete cacheKey cache) st of
                  Some st' \<Rightarrow> (None, st')
                | None \<Rightarrow> (None, st))
             else (Some (data entry), st))"

subsection \<open>The environment\<close>

text \<open>
  A URL is its base and its query parameters in order; percent-encoding and the decimal
  rendering of the numbers are left to the platform. A \<^verbatim>\<open>Response\<close> is its status and
  what \<^verbatim>\<open>response.json()\<close> settles to.
\<close>

type_synonym url = "string \<times> (string \<times> json) list"

record Response =
  status :: nat
  body :: "JsError + json"

definition ok :: "Response \<Rightarrow> bool" where
  "ok response = (200 \<le> status response \<and> status response \<le> 299)"

datatype effect = Fetched url | Slept real

text \<open>
  The mutable state the code works on: the clock read by \<^verbatim>\<open>Date.now()\<close>, the flag
  \<^verbatim>\<open>isOnline\<close> of the \<^verbatim>\<open>NetworkChecker\<close> singleton, the static map of the rate limiter
  and \<^verbatim>\<open>localStorage\<close>. The field \<open>log\<close> records, in order, each \<^verbatim>\<open>fetch\<close> and each
  back-off \<^verbatim>\<open>sleep\<close> the code performs. Between two suspension points the clock stands
  still.
\<close>

record world =
  clock :: int
  online :: bool
  requestCounts :: "string \<rightharpoonup> RateWindow"
  store :: storage
  log :: "effect list"

text \<open>
  What happens while the code is suspended is the environment's: a \<^verbatim>\<open>fetch\<close> settles
  to a response or throws, a \<^verbatim>\<open>sleep\<close> returns after a while, and both may change
  anything in the world meanwhile (time passes, the network comes and goes, other tasks
  run). \<^verbatim>\<open>Math.random()\<close> and the parsing of \<^verbatim>\<open>new Date(v)\<close> (\<open>None\<close> for an invalid
  date) are the platform's as well.
\<close>

record env =
  envFetch :: "url \<Rightarrow> world \<Rightarrow> (JsError + Response) \<times> world"
  envSleep :: "real \<Rightarrow> world \<Rightarrow> world"
  envRandom :: "world \<Rightarrow> real \<times> world"
  envNewDate :: "json \<Rightarrow> int option"

subsection \<open>Retry with back-off (\<^verbatim>\<open>RetryHandler\<close>)\<close>

record RetryConfig =
  maxAttempts :: nat
  baseDelay :: real
  maxDelay :: real
  backoffMultiplier :: real
  retryableErrors :: "ErrorType list"

definition DEFAULT_RETRY_CONFIG :: RetryConfig where
  "DEFAULT_RETRY_CONFIG =
     \<lparr>maxAttempts = 3, baseDelay = 1000, maxDelay = 10000, backoffMultiplier = 2,
      retryableErrors = [Network, Api]\<rparr>"

text \<open>\<^verbatim>\<open>error instanceof Error ? error : new Error(String(error))\<close>: an \<^verbatim>\<open>AppError\<close> is a
  plain object.\<close>

definition toError :: "thrown \<Rightarrow> JsError" where
  "toError error =
     (case error of
        JsErr e \<Rightarrow> e
      | AppErr _ \<Rightarrow> \<lparr>errName = ''Error'', errMessage = ''[object Object]''\<rparr>)"

text \<open>The two tests of the catch block that re-throw an \<^verbatim>\<open>AppError\<close> at once.\<close>

definition thrownAtOnce :: "RetryConfig \<Rightarrow> thrown \<Rightarrow> bool" where
  "thrownAtOnce cfg error =
     (case error of
        AppErr appError \<Rightarrow>
          (\<not> retryable appError \<or> errType appError \<notin> set (retryableErrors cfg))
          \<or> errType appError = User
      | JsErr _ \<Rightarrow> False)"

definition offlineError :: AppError where
  "offlineError =
     createAppError Network
       ''No internet connection. Please check your network and try again.'' True None"

text \<open>
  The loop of \<^verbatim>\<open>executeWithRetry\<close> from \<open>attempt\<close> on. The operation is a function of
  the world: it returns a value or throws, and leaves the world changed.
\<close>

function executeAttempts ::
  "env \<Rightarrow> RetryConfig \<Rightarrow> (world \<Rightarrow> (thrown + 'a) \<times> world) \<Rightarrow> string \<Rightarrow> nat
     \<Rightarrow> JsError option \<Rightarrow> world \<Rightarrow> (thrown + 'a) \<times> world" where
  "executeAttempts e cfg operation operationName attempt lastError w =
     (if attempt \<le> maxAttempts cfg then
        (case (if \<not> online w then (Inl (AppErr offlineError), w) else operation w) of
           (Inr v, w1) \<Rightarrow> (Inr v, w1)
         | (Inl error, w1) \<Rightarrow>
             if thrownAtOnce cfg error then (Inl error, w1)
             else if attempt = maxAttempts cfg then
               (case error of
                  AppErr _ \<Rightarrow> (Inl error, w1)
                | JsErr _ \<Rightarrow>
                    (Inl (AppErr (createAppError Api
                       (operationName @ '' failed after '' @ showNat (maxAttempts cfg) @ '' attempts'')
                       False (Some (toError error)))), w1))
             else
               (let delay = min (baseDelay cfg * backoffMultiplier cfg ^ (attempt - 1)) (maxDelay cfg);
                    jitteredDelay = delay + fst (envRandom e w1) * 1000;
                    w2 = snd (envRandom e w1);
                    w3 = envSleep e jitteredDelay (w2\<lparr>log := log w2 @ [Slept jitteredDelay]\<rparr>)
                in executeAttempts e cfg operation operationName (attempt + 1)
                     (Some (toError error)) w3))
      else
        (Inl (AppErr (createAppError Api (operationName @ '' failed unexpectedly'') False lastError)),
         w))"
  by pat_completeness auto
termination
  by (relation "measure (\<lambda>(e, cfg, operation, operationName, attempt, lastError, w).
                           Suc (maxAttempts cfg) - attempt)") auto

declare executeAttempts.simps [simp del]

definition executeWithRetry ::
  "env \<Rightarrow> RetryConfig \<Rightarrow> (world \<Rightarrow> (thrown + 'a) \<times> world) \<Rightarrow> string \<Rightarrow> world
     \<Rightarrow> (thrown + 'a) \<times> world" where
  "executeWithRetry e cfg operation operationName w =
     executeAttempts e cfg operation operationName 1 None w"

subsection \<open>Classification of failures (\<^verbatim>\<open>HttpErrorAnalyzer\<close>)\<close>

definition analyzeHttpError :: "Response \<Rightarrow> string \<Rightarrow> AppError" where
  "analyzeHttpError response context =
     (let st = status response
      in if st = 429 then
           createAppError Api ''Too many requests. Please wait a moment and try again.'' True None
         else if st \<ge> 500 \<and> st < 600 then
           createAppError Api (context @ '' service unavailable ('' @ showNat st @ '')'') True None
         else if st = 404 then
           createAppError Api
             (context @ '' service endpoint not found. This may be a temporary issue.'') True None
         else if st = 403 then
           createAppError Api
             (''Access to '' @ toLowerCase context @ '' service is forbidden'') False None
         else if st = 401 then
           createAppError Api (''Authentication required for '' @ context @ '' service.'') False None
         else if st \<ge> 400 \<and> st < 500 then
           createAppError User
             (''Invalid request to '' @ context
                @ '' service. Please check your input and try again.'') False None
         else
           createAppError Api
             (context @ '' service returned an unexpected error ('' @ showNat st @ '').'') True None)"

definition analyzeFetchError :: "JsError \<Rightarrow> string \<Rightarrow> AppError" where
  "analyzeFetchError error context =
     (let msg = toLowerCase (errMessage error)
      in if strIncludes msg ''failed to fetch'' \<or> strIncludes msg ''network error''
            \<or> strIncludes msg ''networkerror'' then
           createAppError Network
             (''Unable to connect to '' @ toLowerCase context
                @ '' service. Please check your internet connection.'') True (Some error)
         else if strIncludes msg ''timeout'' \<or> strIncludes msg ''aborted''
            \<or> errName error = ''AbortError'' then
           createAppError Network
             (context @ '' service request timed out. Please try again.'') True (Some error)
         else if strIncludes msg ''cors'' \<or> strIncludes msg ''cross-origin'' then
           createAppError Api
             (context @ '' service is not accessible due to security restrictions.'') False
             (Some error)
         else if strIncludes msg ''dns'' \<or> strIncludes msg ''name resolution'' then
           createAppError Network
             (''Cannot reach '' @ context @ '' service. Please check your internet connection.'')
             True (Some error)
         else
           createAppError Network
             (''Network error occurred while accessing '' @ context @ '' service.'') True
             (Some error))"

subsection \<open>Rate-limit and offline errors, and the request handler (\<^verbatim>\<open>ErrorHandler\<close>)\<close>

definition handleRateLimitExceeded :: "string \<Rightarrow> world \<Rightarrow> AppError" where
  "handleRateLimitExceeded serviceKey w =
     (let resetTime = getResetTime serviceKey (clock w) (requestCounts w);
          resetMinutes = nat \<lceil>real_of_int resetTime / 60000\<rceil>
      in createAppError Api
           (''Rate limit exceeded. Please wait '' @ showNat resetMinutes @ '' minute''
              @ (if resetMinutes \<noteq> 1 then ''s'' else '''') @ '' before trying again.'')
           True None)"

definition createOfflineError :: "string \<Rightarrow> AppError" where
  "createOfflineError context =
     createAppError Network
       (''You are currently offline. '' @ context
          @ '' will be attempted when your connection is restored.'') True None"

definition handleApiRequest ::
  "env \<Rightarrow> RetryConfig \<Rightarrow> (world \<Rightarrow> (thrown + 'a) \<times> world) \<Rightarrow> string \<Rightarrow> string \<Rightarrow> world
     \<Rightarrow> (thrown + 'a) \<times> world" where
  "handleApiRequest e cfg operation context serviceKey w =
     (if \<not> online w then (Inl (AppErr (createOfflineError context)), w)
      else
        (let (allowed, counts) = checkRateLimit serviceKey (clock w) (requestCounts w);
             w1 = w\<lparr>requestCounts := counts\<rparr>
         in if \<not> allowed then (Inl (AppErr (handleRateLimitExceeded serviceKey w1)), w1)
            else executeWithRetry e cfg operation context w1))"

text \<open>
  The operation that \<^verbatim>\<open>handleFetch\<close> builds: one \<^verbatim>\<open>fetch\<close> (aborted by its timer after
  30 seconds, which is one of the ways \<^verbatim>\<open>fetch\<close> throws); every failure leaves it as an
  \<^verbatim>\<open>AppError\<close>.
\<close>

definition fetchOperation :: "env \<Rightarrow> url \<Rightarrow> string \<Rightarrow> world \<Rightarrow> (thrown + Response) \<times> world" where
  "fetchOperation e u context w =
     (case envFetch e u (w\<lparr>log := log w @ [Fetched u]\<rparr>) of
        (Inl error, w1) \<Rightarrow> (Inl (AppErr (analyzeFetchError error context)), w1)
      | (Inr response, w1) \<Rightarrow>
          if \<not> ok response then (Inl (AppErr (analyzeHttpError response context)), w1)
          else (Inr response, w1))"

definition handleFetch ::
  "env \<Rightarrow> RetryConfig \<Rightarrow> url \<Rightarrow> string \<Rightarrow> world \<Rightarrow> (thrown + Response) \<times> world" where
  "handleFetch e cfg u context w =
     handleApiRequest e cfg (fetchOperation e u context) context (toLowerCase context) w"

subsection \<open>Property access on values\<close>

definition typeError :: JsError where
  "typeError = \<lparr>errName = ''TypeError'', errMessage = ''''\<rparr>"

text \<open>
  \<^verbatim>\<open>v.k\<close>: a \<^verbatim>\<open>TypeError\<close> on \<^verbatim>\<open>null\<close> and \<^verbatim>\<open>undefined\<close>, the property of an object,
  \<^verbatim>\<open>undefined\<close> where there is none. (The text of the message of a \<^verbatim>\<open>TypeError\<close> is the
  engine's and is left empty.)
\<close>

definition getProp :: "json \<Rightarrow> string \<Rightarrow> JsError + json" where
  "getProp v k =
     (case v of
        JUndefined \<Rightarrow> Inl typeError
      | JNull \<Rightarrow> Inl typeError
      | JObj props \<Rightarrow> Inr (case map_of props k of Some x \<Rightarrow> x | None \<Rightarrow> JUndefined)
      | _ \<Rightarrow> Inr JUndefined)"

text \<open>The same on a value known to be neither \<^verbatim>\<open>null\<close> nor \<^verbatim>\<open>undefined\<close>.\<close>

definition propOf :: "json \<Rightarrow> string \<Rightarrow> json" where
  "propOf v k = (case getProp v k of Inr x \<Rightarrow> x | Inl _ \<Rightarrow> JUndefined)"

text \<open>\<^verbatim>\<open>k in v\<close> for an object.\<close>

definition hasProp :: "(string \<times> json) list \<Rightarrow> string \<Rightarrow> bool" where
  "hasProp props k = (k \<in> fst ` set props)"

text \<open>\<^verbatim>\<open>v[i]\<close>: the element of an array, the character of a string, the property of an
  object named by the digits of \<open>i\<close>.\<close>

definition elemAt :: "json \<Rightarrow> nat \<Rightarrow> JsError + json" where
  "elemAt v i =
     (case v of
        JUndefined \<Rightarrow> Inl typeError
      | JNull \<Rightarrow> Inl typeError
      | JArr xs \<Rightarrow> Inr (if i < length xs then xs ! i else JUndefined)
      | JStr s \<Rightarrow> Inr (if i < length s then JStr [s ! i] else JUndefined)
      | JObj props \<Rightarrow> Inr (case map_of props (showNat i) of Some x \<Rightarrow> x | None \<Rightarrow> JUndefined)
      | _ \<Rightarrow> Inr JUndefined)"

subsection \<open>The geocoding client (\<^verbatim>\<open>LocationService\<close>)\<close>

definition locationRetryConfig :: RetryConfig where
  "locationRetryConfig = DEFAULT_RETRY_CONFIG\<lparr>maxAttempts := 2, baseDelay := 500, maxDelay := 3000\<rparr>"

text \<open>\<^verbatim>\<open>sanitizeQuery\<close>: trimmed, without the characters
  \<^verbatim>\<open>< > " ' & ( ) /\<close>, cut to 100 characters.\<close>

definition sanitizeQuery :: "string \<Rightarrow> string" where
  "sanitizeQuery query =
     take 100
       (filter (\<lambda>c. c \<notin> set [CHR ''<'', CHR ''>'', CHR 0x22, CHR 0x27, CHR ''&'', CHR ''('',
                               CHR '')'', CHR ''/''])
          (trim query))"

definition isValidQuery :: "string \<Rightarrow> bool" where
  "isValidQuery query = (length query \<ge> 2 \<and> length query \<le> 100)"

definition buildSearchUrl :: "Config \<Rightarrow> string \<Rightarrow> url" where
  "buildSearchUrl cfg query =
     (geocodingApiBaseUrl cfg,
      [(''name'', JStr query),
       (''count'', JNum (Num (real (maxLocationResults cfg)))),
       (''language'', JStr ''en''),
       (''format'', JStr ''json'')])"

definition isValidLocationResult :: "json \<Rightarrow> bool" where
  "isValidLocationResult result =
     (case result of
        JObj props \<Rightarrow>
          hasProp props ''id'' \<and> hasProp props ''name'' \<and> hasProp props ''country''
          \<and> hasProp props ''latitude'' \<and> hasProp props ''longitude''
          \<and> typeofNumber (propOf result ''id'')
          \<and> typeofString (propOf result ''name'')
          \<and> typeofString (propOf result ''country'')
          \<and> typeofNumber (propOf result ''latitude'')
          \<and> typeofNumber (propOf result ''longitude'')
          \<and> (case propOf result ''name'' of JStr s \<Rightarrow> length s > 0 | _ \<Rightarrow> False)
          \<and> (case propOf result ''country'' of JStr s \<Rightarrow> length s > 0 | _ \<Rightarrow> False)
      | _ \<Rightarrow> False)"

definition transformLocationResult :: "json \<Rightarrow> Location" where
  "transformLocationResult result =
     \<lparr>locId = propOf result ''id'',
      locName = propOf result ''name'',
      locCountry = propOf result ''country'',
      locAdmin1 = (if truthy (propOf result ''admin1'') then propOf result ''admin1'' else JUndefined),
      locLatitude = propOf result ''latitude'',
      locLongitude = propOf result ''longitude''\<rparr>"

definition validateAndTransformResults :: "Config \<Rightarrow> json list \<Rightarrow> Location list" where
  "validateAndTransformResults cfg results =
     map transformLocationResult
       (take (maxLocationResults cfg) (filter isValidLocationResult results))"

text \<open>
  \<^verbatim>\<open>handleFetch\<close> followed by \<^verbatim>\<open>await response.json()\<close>, as each client method does it:
  a rejection of \<^verbatim>\<open>json()\<close> is thrown on as it is.
\<close>

definition fetchJson ::
  "env \<Rightarrow> RetryConfig \<Rightarrow> url \<Rightarrow> string \<Rightarrow> world \<Rightarrow> (thrown + json) \<times> world" where
  "fetchJson e rcfg u context w =
     (case handleFetch e rcfg u context w of
        (Inl error, w1) \<Rightarrow> (Inl error, w1)
      | (Inr response, w1) \<Rightarrow>
          (case body response of
             Inl error \<Rightarrow> (Inl (JsErr error), w1)
           | Inr d \<Rightarrow> (Inr d, w1)))"

text \<open>
  \<^verbatim>\<open>searchLocations(query)\<close>. The catch block re-throws what it caught, so every thrown
  value leaves the method as it is. A truthy \<^verbatim>\<open>results\<close> that is not an array has no
  \<^verbatim>\<open>filter\<close> method: a \<^verbatim>\<open>TypeError\<close>. The keys \<^verbatim>\<open>constructor\<close> and \<^verbatim>\<open>__proto__\<close>, which
  every cache object inherits, are not represented.
\<close>

definition searchLocations ::
  "env \<Rightarrow> Config \<Rightarrow> string \<Rightarrow> world \<Rightarrow> (thrown + Location list) \<times> world" where
  "searchLocations e cfg query w =
     (let sanitizedQuery = sanitizeQuery query
      in if \<not> isValidQuery sanitizedQuery then
           (Inl (AppErr (createAppError User
              ''Please enter a valid location name (at least 2 characters)'' False None)), w)
         else
           (case getCachedLocationSearch sanitizedQuery (clock w) (store w) of
              (Some cachedResults, st1) \<Rightarrow> (Inr cachedResults, w\<lparr>store := st1\<rparr>)
            | (None, st1) \<Rightarrow>
                (case fetchJson e locationRetryConfig (buildSearchUrl cfg sanitizedQuery)
                        ''Location search'' (w\<lparr>store := st1\<rparr>) of
                   (Inl error, w2) \<Rightarrow> (Inl error, w2)
                 | (Inr d, w2) \<Rightarrow>
                     (case getProp d ''results'' of
                        Inl error \<Rightarrow> (Inl (JsErr error), w2)
                      | Inr results \<Rightarrow>
                          if \<not> truthy results then
                            (Inr [],
                             w2\<lparr>store := cacheLocationSearch sanitizedQuery [] (clock w2) (store w2)\<rparr>)
                          else
                            (case results of
                               JArr rs \<Rightarrow>
                                 (let res = validateAndTransformResults cfg rs
                                  in (Inr res,
                                      w2\<lparr>store := cacheLocationSearch sanitizedQuery res
                                                      (clock w2) (store w2)\<rparr>))
                             | _ \<Rightarrow> (Inl (JsErr typeError), w2))))))"

subsection \<open>The weather client (\<^verbatim>\<open>WeatherService\<close>)\<close>

definition weatherRetryConfig :: RetryConfig where
  "weatherRetryConfig = DEFAULT_RETRY_CONFIG\<lparr>maxAttempts := 3, baseDelay := 1000, maxDelay := 8000\<rparr>"

text \<open>\<^verbatim>\<open>validateCoordinates\<close>: the error it throws, or \<open>None\<close> when it returns.\<close>

definition validateCoordinates :: "json \<Rightarrow> json \<Rightarrow> AppError option" where
  "validateCoordinates lat lon =
     (case (lat, lon) of
        (JNum la, JNum lo) \<Rightarrow>
          if numLess la (Num (- 90)) \<or> numGreater la (Num 90) then
            Some (createAppError User ''Latitude must be between -90 and 90 degrees'' False None)
          else if numLess lo (Num (- 180)) \<or> numGreater lo (Num 180) then
            Some (createAppError User ''Longitude must be between -180 and 180 degrees'' False None)
          else None
      | _ \<Rightarrow> Some (createAppError User ''Invalid coordinates provided'' False None))"

definition currentFields :: json where
  "currentFields = JStr ''temperature_2m,weather_code,wind_speed_10m,wind_direction_10m,relative_humidity_2m''"

definition dailyFields :: json where
  "dailyFields = JStr ''temperature_2m_max,temperature_2m_min,weather_code,precipitation_sum''"

definition buildCurrentWeatherUrl :: "Config \<Rightarrow> jsnum \<Rightarrow> jsnum \<Rightarrow> url" where
  "buildCurrentWeatherUrl cfg lat lon =
     (weatherApiBaseUrl cfg,
      [(''latitude'', JNum lat), (''longitude'', JNum lon),
       (''current'', currentFields),
       (''timezone'', JStr ''auto'')])"

definition buildForecastUrl :: "Config \<Rightarrow> jsnum \<Rightarrow> jsnum \<Rightarrow> url" where
  "buildForecastUrl cfg lat lon =
     (weatherApiBaseUrl cfg,
      [(''latitude'', JNum lat), (''longitude'', JNum lon),
       (''daily'', dailyFields),
       (''forecast_days'', JNum (Num (real (forecastDays cfg)))),
       (''timezone'', JStr ''auto'')])"

definition buildCompleteWeatherUrl :: "Config \<Rightarrow> jsnum \<Rightarrow> jsnum \<Rightarrow> url" where
  "buildCompleteWeatherUrl cfg lat lon =
     (weatherApiBaseUrl cfg,
      [(''latitude'', JNum lat), (''longitude'', JNum lon),
       (''current'', currentFields),
       (''daily'', dailyFields),
       (''forecast_days'', JNum (Num (real (forecastDays cfg)))),
       (''timezone'', JStr ''auto'')])"

text \<open>\<^verbatim>\<open>parseTimestamp\<close>: the parsed date, or the current time when the date is invalid.\<close>

definition parseTimestamp :: "env \<Rightarrow> int \<Rightarrow> json \<Rightarrow> int" where
  "parseTimestamp e now ts = (case envNewDate e ts of Some t \<Rightarrow> t | None \<Rightarrow> now)"

definition transformCurrentWeatherData :: "env \<Rightarrow> int \<Rightarrow> json \<Rightarrow> CurrentWeatherData" where
  "transformCurrentWeatherData e now cur =
     \<lparr>cwTemperature = propOf cur ''temperature_2m'',
      cwWeatherCode = propOf cur ''weather_code'',
      cwWindSpeed = propOf cur ''wind_speed_10m'',
      cwWindDirection = propOf cur ''wind_direction_10m'',
      cwHumidity = propOf cur ''relative_humidity_2m'',
      cwTimestamp = parseTimestamp e now (propOf cur ''time'')\<rparr>"

text \<open>The callback of \<^verbatim>\<open>time.map\<close> at one index: indexing a missing array throws.\<close>

definition forecastDay ::
  "env \<Rightarrow> int \<Rightarrow> json \<Rightarrow> json \<Rightarrow> json \<Rightarrow> json \<Rightarrow> json \<Rightarrow> nat \<Rightarrow> JsError + ForecastData" where
  "forecastDay e now dateStr tmax tmin code precip index =
     (case elemAt tmax index of Inl err \<Rightarrow> Inl err | Inr a \<Rightarrow>
      case elemAt tmin index of Inl err \<Rightarrow> Inl err | Inr b \<Rightarrow>
      case elemAt code index of Inl err \<Rightarrow> Inl err | Inr c \<Rightarrow>
      case elemAt precip index of Inl err \<Rightarrow> Inl err | Inr d \<Rightarrow>
        Inr \<lparr>fcDate = parseTimestamp e now dateStr, fcTemperatureMax = a, fcTemperatureMin = b,
             fcWeatherCode = c, fcPrecipitationSum = d\<rparr>)"

fun forecastDays_from ::
  "env \<Rightarrow> int \<Rightarrow> json \<Rightarrow> json \<Rightarrow> json \<Rightarrow> json \<Rightarrow> nat \<Rightarrow> json list \<Rightarrow> JsError + ForecastData list" where
  "forecastDays_from e now tmax tmin code precip index [] = Inr []"
| "forecastDays_from e now tmax tmin code precip index (dateStr # rest) =
     (case forecastDay e now dateStr tmax tmin code precip index of
        Inl err \<Rightarrow> Inl err
      | Inr day \<Rightarrow>
          (case forecastDays_from e now tmax tmin code precip (Suc index) rest of
             Inl err \<Rightarrow> Inl err
           | Inr days \<Rightarrow> Inr (day # days)))"

text \<open>\<^verbatim>\<open>transformForecastData\<close>: \<^verbatim>\<open>time\<close> has to be an array to have \<^verbatim>\<open>map\<close>.\<close>

definition transformForecastData :: "env \<Rightarrow> int \<Rightarrow> json \<Rightarrow> JsError + ForecastData list" where
  "transformForecastData e now daily =
     (case propOf daily ''time'' of
        JArr dates \<Rightarrow>
          forecastDays_from e now (propOf daily ''temperature_2m_max'')
            (propOf daily ''temperature_2m_min'') (propOf daily ''weather_code'')
            (propOf daily ''precipitation_sum'') 0 dates
      | _ \<Rightarrow> Inl typeError)"

definition invalidWeatherData :: AppError where
  "invalidWeatherData = createAppError Data ''Invalid weather data received from service'' True None"

definition invalidForecastData :: AppError where
  "invalidForecastData = createAppError Data ''Invalid forecast data received from service'' True None"

text \<open>
  \<^verbatim>\<open>getCurrentWeather(lat, lon)\<close> after the validation of the coordinates: the cache,
  then the request for the \<^verbatim>\<open>current\<close> fields; the cache is written only inside
  \<^verbatim>\<open>if (data.daily)\<close>.
\<close>

definition currentWeatherValidated ::
  "env \<Rightarrow> Config \<Rightarrow> jsnum \<Rightarrow> jsnum \<Rightarrow> world \<Rightarrow> (thrown + CurrentWeatherData) \<times> world" where
  "currentWeatherValidated e cfg lat lon w =
     (case getCachedWeatherData lat lon (clock w) (store w) of
        (Some cachedData, st1) \<Rightarrow> (Inr (current cachedData), w\<lparr>store := st1\<rparr>)
      | (None, st1) \<Rightarrow>
          (case fetchJson e weatherRetryConfig (buildCurrentWeatherUrl cfg lat lon) ''Weather''
                  (w\<lparr>store := st1\<rparr>) of
             (Inl error, w2) \<Rightarrow> (Inl error, w2)
           | (Inr d, w2) \<Rightarrow>
               (case getProp d ''current'' of
                  Inl error \<Rightarrow> (Inl (JsErr error), w2)
                | Inr cur \<Rightarrow>
                    if \<not> truthy cur then (Inl (AppErr invalidWeatherData), w2)
                    else
                      (let currentWeather = transformCurrentWeatherData e (clock w2) cur
                       in if truthy (propOf d ''daily'') then
                            (case transformForecastData e (clock w2) (propOf d ''daily'') of
                               Inl error \<Rightarrow> (Inl (JsErr error), w2)
                             | Inr fc \<Rightarrow>
                                 (Inr currentWeather,
                                  w2\<lparr>store := cacheWeatherData cfg lat lon currentWeather fc
                                                  (clock w2) (store w2)\<rparr>))
                          else (Inr currentWeather, w2)))))"

definition getCurrentWeather ::
  "env \<Rightarrow> Config \<Rightarrow> jsnum \<Rightarrow> jsnum \<Rightarrow> world \<Rightarrow> (thrown + CurrentWeatherData) \<times> world" where
  "getCurrentWeather e cfg lat lon w =
     (case validateCoordinates (JNum lat) (JNum lon) of
        Some error \<Rightarrow> (Inl (AppErr error), w)
      | None \<Rightarrow> currentWeatherValidated e cfg lat lon w)"

text \<open>\<^verbatim>\<open>getForecast(lat, lon)\<close>: the request is for the \<^verbatim>\<open>daily\<close> fields; the cache is
  written only inside \<^verbatim>\<open>if (data.current)\<close>.\<close>

definition forecastValidated ::
  "env \<Rightarrow> Config \<Rightarrow> jsnum \<Rightarrow> jsnum \<Rightarrow> world \<Rightarrow> (thrown + ForecastData list) \<times> world" where
  "forecastValidated e cfg lat lon w =
     (case getCachedWeatherData lat lon (clock w) (store w) of
        (Some cachedData, st1) \<Rightarrow> (Inr (forecast cachedData), w\<lparr>store := st1\<rparr>)
      | (None, st1) \<Rightarrow>
          (case fetchJson e weatherRetryConfig (buildForecastUrl cfg lat lon) ''Weather forecast''
                  (w\<lparr>store := st1\<rparr>) of
             (Inl error, w2) \<Rightarrow> (Inl error, w2)
           | (Inr d, w2) \<Rightarrow>
               (case getProp d ''daily'' of
                  Inl error \<Rightarrow> (Inl (JsErr error), w2)
                | Inr daily \<Rightarrow>
                    if \<not> truthy daily then (Inl (AppErr invalidForecastData), w2)
                    else
                      (case transformForecastData e (clock w2) daily of
                         Inl error \<Rightarrow> (Inl (JsErr error), w2)
                       | Inr fc \<Rightarrow>
                           if truthy (propOf d ''current'') then
                             (let currentWeather =
                                    transformCurrentWeatherData e (clock w2) (propOf d ''current'')
                              in (Inr fc,
                                  w2\<lparr>store := cacheWeatherData cfg lat lon currentWeather fc
                                                  (clock w2) (store w2)\<rparr>))
                           else (Inr fc, w2)))))"

definition getForecast ::
  "env \<Rightarrow> Config \<Rightarrow> jsnum \<Rightarrow> jsnum \<Rightarrow> world \<Rightarrow> (thrown + ForecastData list) \<times> world" where
  "getForecast e cfg lat lon w =
     (case validateCoordinates (JNum lat) (JNum lon) of
        Some error \<Rightarrow> (Inl (AppErr error), w)
      | None \<Rightarrow> forecastValidated e cfg lat lon w)"

text \<open>\<^verbatim>\<open>getCompleteWeatherData(lat, lon)\<close>: both parts are required and cached together.\<close>

definition completeWeatherValidated ::
  "env \<Rightarrow> Config \<Rightarrow> jsnum \<Rightarrow> jsnum \<Rightarrow> world \<Rightarrow> (thrown + WeatherCacheData) \<times> world" where
  "completeWeatherValidated e cfg lat lon w =
     (case getCachedWeatherData lat lon (clock w) (store w) of
        (Some cachedData, st1) \<Rightarrow> (Inr cachedData, w\<lparr>store := st1\<rparr>)
      | (None, st1) \<Rightarrow>
          (case fetchJson e weatherRetryConfig (buildCompleteWeatherUrl cfg lat lon)
                  ''Complete weather'' (w\<lparr>store := st1\<rparr>) of
             (Inl error, w2) \<Rightarrow> (Inl error, w2)
           | (Inr d, w2) \<Rightarrow>
               (case getProp d ''current'' of
                  Inl error \<Rightarrow> (Inl (JsErr error), w2)
                | Inr cur \<Rightarrow>
                    if \<not> truthy cur \<or> \<not> truthy (propOf d ''daily'') then
                      (Inl (AppErr invalidWeatherData), w2)
                    else
                      (let currentWeather = transformCurrentWeatherData e (clock w2) cur
                       in case transformForecastData e (clock w2) (propOf d ''daily'') of
                            Inl error \<Rightarrow> (Inl (JsErr error), w2)
                          | Inr fc \<Rightarrow>
                              (Inr \<lparr>current = currentWeather, forecast = fc\<rparr>,
                               w2\<lparr>store := cacheWeatherData cfg lat lon currentWeather fc
                                               (clock w2) (store w2)\<rparr>)))))"

definition getCompleteWeatherData ::
  "env \<Rightarrow> Config \<Rightarrow> jsnum \<Rightarrow> jsnum \<Rightarrow> world \<Rightarrow> (thrown + WeatherCacheData) \<times> world" where
  "getCompleteWeatherData e cfg lat lon w =
     (case validateCoordinates (JNum lat) (JNum lon) of
        Some error \<Rightarrow> (Inl (AppErr error), w)
      | None \<Rightarrow> completeWeatherValidated e cfg lat lon w)"

section \<open>Concrete inputs\<close>

text \<open>The inputs at which the theorems below are instantiated.\<close>

definition fullWindow :: "string \<rightharpoonup> RateWindow" where
  "fullWindow = Map.empty(''weather'' \<mapsto> \<lparr>count = 60, resetTime = 60000\<rparr>)"

definition sampleCurrent :: CurrentWeatherData where
  "sampleCurrent = \<lparr>cwTemperature = JNum (Num 15.5), cwWeatherCode = JNum (Num 1),
      cwWindSpeed = JNum (Num 10.2), cwWindDirection = JNum (Num 180),
      cwHumidity = JNum (Num 65), cwTimestamp = 500\<rparr>"

definition staleStore :: storage where
  "staleStore =
     \<lparr>locationItem = Item [(''new york'', \<lparr>data = [], timestamp = 0, expiresAt = 1000\<rparr>)],
      weatherItem = Item [(''40,-74'',
         \<lparr>data = \<lparr>current = sampleCurrent, forecast = []\<rparr>, timestamp = 0, expiresAt = 1000\<rparr>)],
      acceptsWrites = True\<rparr>"

definition fullStore :: storage where
  "fullStore =
     \<lparr>locationItem = Item (map (\<lambda>i. (replicate (Suc i) CHR ''a'',
                                      \<lparr>data = [], timestamp = int i, expiresAt = int i + 86400000\<rparr>))
                             [0..<50]),
      weatherItem = Missing,
      acceptsWrites = True\<rparr>"

definition emptyStore :: storage where
  "emptyStore = \<lparr>locationItem = Missing, weatherItem = Missing, acceptsWrites = True\<rparr>"

definition offlineWorld :: world where
  "offlineWorld = \<lparr>clock = 0, online = False, requestCounts = Map.empty, store = emptyStore, log = []\<rparr>"

definition onlineWorld :: world where
  "onlineWorld = \<lparr>clock = 0, online = True, requestCounts = Map.empty, store = emptyStore, log = []\<rparr>"

text \<open>An environment in which a sleep only lets the time pass, the jitter is 0 and every
  \<^verbatim>\<open>fetch\<close> settles to the given outcome.\<close>

definition quietEnv :: "(JsError + Response) \<Rightarrow> env" where
  "quietEnv outcome =
     \<lparr>envFetch = (\<lambda>u w. (outcome, w)),
      envSleep = (\<lambda>ms w. w\<lparr>clock := clock w + \<lceil>ms\<rceil>\<rparr>),
      envRandom = (\<lambda>w. (0, w)),
      envNewDate = (\<lambda>v. None)\<rparr>"

text \<open>The same, but the network is back after the first sleep.\<close>

definition reconnectingEnv :: "(JsError + Response) \<Rightarrow> env" where
  "reconnectingEnv outcome =
     (quietEnv outcome)\<lparr>envSleep := (\<lambda>ms w. w\<lparr>clock := clock w + \<lceil>ms\<rceil>, online := True\<rparr>)\<rparr>"

definition fetchFailure :: "JsError + Response" where
  "fetchFailure = Inl \<lparr>errName = ''TypeError'', errMessage = ''Failed to fetch''\<rparr>"

definition succeed :: "world \<Rightarrow> (thrown + string) \<times> world" where
  "succeed w = (Inr ''success'', w)"

definition defaultConfig :: Config where
  "defaultConfig =
     \<lparr>weatherApiBaseUrl = ''https://api.open-meteo.com/v1/forecast'',
      geocodingApiBaseUrl = ''https://geocoding-api.open-meteo.com/v1/search'',
      maxLocationResults = 10, forecastDays = 7, cacheDurationMinutes = 10\<rparr>"

definition syntaxError :: JsError where
  "syntaxError = \<lparr>errName = ''SyntaxError'', errMessage = ''Unexpected token''\<rparr>"

definition malformedJson :: "JsError + Response" where
  "malformedJson = Inr \<lparr>status = 200, body = Inl syntaxError\<rparr>"

definition geoRecord :: "json \<Rightarrow> json \<Rightarrow> json \<Rightarrow> json \<Rightarrow> json \<Rightarrow> json" where
  "geoRecord i n c la lo =
     JObj [(''id'', i), (''name'', n), (''country'', c), (''latitude'', la), (''longitude'', lo)]"

definition geoLocation :: "json \<Rightarrow> json \<Rightarrow> json \<Rightarrow> json \<Rightarrow> json \<Rightarrow> Location" where
  "geoLocation i n c la lo =
     \<lparr>locId = i, locName = n, locCountry = c, locAdmin1 = JUndefined,
      locLatitude = la, locLongitude = lo\<rparr>"

text \<open>The geocoding response of the repository's test "should filter out invalid
  location results": two valid records, one without country and coordinates, one with
  wrong types; here with one more, whose name is empty.\<close>

definition mixedResults :: "json list" where
  "mixedResults =
     [geoRecord (JNum (Num 1)) (JStr ''London'') (JStr ''United Kingdom'')
        (JNum (Num 51)) (JNum (Num 0)),
      JObj [(''id'', JNum (Num 2)), (''name'', JStr ''Invalid Location'')],
      geoRecord (JStr ''3'') (JNum (Num 123)) (JStr ''Test'') (JStr ''invalid'') (JNum (Num 0)),
      geoRecord (JNum (Num 4)) (JStr []) (JStr ''Test'') (JNum (Num 0)) (JNum (Num 0)),
      geoRecord (JNum (Num 5)) (JStr ''Paris'') (JStr ''France'') (JNum (Num 48)) (JNum (Num 2))]"

definition mixedResponse :: "JsError + Response" where
  "mixedResponse = Inr \<lparr>status = 200, body = Inr (JObj [(''results'', JArr mixedResults)])\<rparr>"

text \<open>A geocoding response whose only record has coordinates out of range.\<close>

definition outOfRangeResponse :: "JsError + Response" where
  "outOfRangeResponse =
     Inr \<lparr>status = 200, body = Inr (JObj [(''results'', JArr
       [geoRecord (JNum (Num 7)) (JStr ''Nowhere'') (JStr ''Test'')
          (JNum (Num 999)) (JNum (Num (- 500)))])])\<rparr>"

definition currentJson :: json where
  "currentJson =
     JObj [(''time'', JStr ''2024-01-15T12:00''), (''temperature_2m'', JNum (Num 15)),
           (''weather_code'', JNum (Num 1)), (''wind_speed_10m'', JNum (Num 10)),
           (''wind_direction_10m'', JNum (Num 180)), (''relative_humidity_2m'', JNum (Num 65))]"

definition dailyJson :: json where
  "dailyJson =
     JObj [(''time'', JArr [JStr ''2024-01-15'']),
           (''temperature_2m_max'', JArr [JNum (Num 18)]),
           (''temperature_2m_min'', JArr [JNum (Num 12)]),
           (''weather_code'', JArr [JNum (Num 1)]),
           (''precipitation_sum'', JArr [JNum (Num 0)])]"

definition currentData :: CurrentWeatherData where
  "currentData =
     \<lparr>cwTemperature = JNum (Num 15), cwWeatherCode = JNum (Num 1), cwWindSpeed = JNum (Num 10),
      cwWindDirection = JNum (Num 180), cwHumidity = JNum (Num 65), cwTimestamp = 0\<rparr>"

definition forecastData :: "ForecastData list" where
  "forecastData =
     [\<lparr>fcDate = 0, fcTemperatureMax = JNum (Num 18), fcTemperatureMin = JNum (Num 12),
       fcWeatherCode = JNum (Num 1), fcPrecipitationSum = JNum (Num 0)\<rparr>]"

text \<open>The responses to a request for the \<^verbatim>\<open>current\<close> fields only, for the \<^verbatim>\<open>daily\<close>
  fields only, and for both.\<close>

definition currentOnlyResponse :: "JsError + Response" where
  "currentOnlyResponse = Inr \<lparr>status = 200, body = Inr (JObj [(''current'', currentJson)])\<rparr>"

definition dailyOnlyResponse :: "JsError + Response" where
  "dailyOnlyResponse = Inr \<lparr>status = 200, body = Inr (JObj [(''daily'', dailyJson)])\<rparr>"

definition bothResponse :: "JsError + Response" where
  "bothResponse =
     Inr \<lparr>status = 200, body = Inr (JObj [(''current'', currentJson), (''daily'', dailyJson)])\<rparr>"

text \<open>A world whose location cache holds a fresh entry for "new york" and whose weather
  cache holds a fresh entry under the key of two \<open>NaN\<close> coordinates.\<close>

definition newYorkLocation :: Location where
  "newYorkLocation =
     \<lparr>locId = JNum (Num 1), locName = JStr ''New York'', locCountry = JStr ''United States'',
      locAdmin1 = JUndefined, locLatitude = JNum (Num 40), locLongitude = JNum (Num (- 74))\<rparr>"

definition cachedWorld :: world where
  "cachedWorld =
     \<lparr>clock = 500, online = True, requestCounts = Map.empty,
      store = \<lparr>locationItem = Item [(''new york'',
                   \<lparr>data = [newYorkLocation], timestamp = 0, expiresAt = 86400000\<rparr>)],
               weatherItem = Item [(''NaN,NaN'',
                   \<lparr>data = \<lparr>current = sampleCurrent, forecast = []\<rparr>, timestamp = 0,
                    expiresAt = 600000\<rparr>)],
               acceptsWrites = True\<rparr>,
      log = []\<rparr>"

section \<open>Properties\<close>

subsection \<open>Evaluation of strings and keys\<close>

lemma showNat_lt10: "n < 10 \<Longrightarrow> showNat n = [digitChar n]"
  by (simp add: showNat.simps)

lemma showNat_ge10: "\<not> n < 10 \<Longrightarrow> showNat n = showNat (n div 10) @ [digitChar (n mod 10)]"
  by (subst showNat.simps) simp

lemmas evalString = normalizeQuery_def trim_def toLowerCase_def toLowerChar_def isWhiteSpace_def
lemmas evalKey = getWeatherCacheKey_def roundHundredths_def showHundredths_def Let_def
  showNat_lt10 showNat_ge10 digitChar_def

lemmas evalEnv = quietEnv_def reconnectingEnv_def offlineWorld_def onlineWorld_def emptyStore_def
  succeed_def fetchFailure_def

subsection \<open>Rate limiting\<close>

lemma checkRateLimit_fresh:
  assumes "m k = None \<or> (\<exists>w. m k = Some w \<and> t > resetTime w)"
  shows "checkRateLimit k t m = (True, m(k \<mapsto> \<lparr>count = 1, resetTime = t + 60000\<rparr>))"
  using assms by (auto simp: checkRateLimit_def RATE_LIMIT_WINDOW_def)

lemma checkRateLimit_blocked:
  assumes "m k = Some w" and "t \<le> resetTime w" and "count w \<ge> 60"
  shows "checkRateLimit k t m = (False, m)"
  using assms by (simp add: checkRateLimit_def MAX_REQUESTS_PER_WINDOW_def)

lemma checkRateLimit_allowed:
  assumes "m k = Some w" and "t \<le> resetTime w" and "count w < 60"
  shows "checkRateLimit k t m = (True, m(k \<mapsto> w\<lparr>count := count w + 1\<rparr>))"
  using assms by (simp add: checkRateLimit_def MAX_REQUESTS_PER_WINDOW_def)

text \<open>
  Inside an unexpired window that has counted \<open>c\<close> requests, the next calls are allowed
  until the count reaches 60 and refused from then on; the count stops at 60.
\<close>

lemma checkRateLimitCalls_window:
  assumes "m k = Some w" and "\<forall>t \<in> set ts. t \<le> resetTime w" and "count w \<le> 60"
  shows "checkRateLimitCalls k ts m =
           (replicate (min (length ts) (60 - count w)) True
              @ replicate (length ts - (60 - count w)) False,
            m(k \<mapsto> w\<lparr>count := min 60 (count w + length ts)\<rparr>))"
  using assms
proof (induction ts arbitrary: m w)
  case Nil
  then show ?case by (simp add: fun_upd_idem)
next
  case (Cons t ts)
  show ?case
  proof (cases "count w < 60")
    case True
    define w' where "w' = w\<lparr>count := count w + 1\<rparr>"
    define m' where "m' = m(k \<mapsto> w')"
    have step: "checkRateLimit k t m = (True, m')"
      using Cons.prems True by (simp add: checkRateLimit_allowed m'_def w'_def)
    have cw': "count w' = Suc (count w)" "resetTime w' = resetTime w"
      by (simp_all add: w'_def)
    have ih: "checkRateLimitCalls k ts m' =
           (replicate (min (length ts) (60 - count w')) True
              @ replicate (length ts - (60 - count w')) False,
            m'(k \<mapsto> w'\<lparr>count := min 60 (count w' + length ts)\<rparr>))"
      using Cons.prems True by (intro Cons.IH) (auto simp: m'_def cw')
    have lhs: "checkRateLimitCalls k (t # ts) m =
           (True # replicate (min (length ts) (60 - count w')) True
              @ replicate (length ts - (60 - count w')) False,
            m'(k \<mapsto> w'\<lparr>count := min 60 (count w' + length ts)\<rparr>))"
      by (simp add: step ih)
    have l1: "True # replicate (min (length ts) (60 - count w')) True
              @ replicate (length ts - (60 - count w')) False
            = replicate (min (length (t # ts)) (60 - count w)) True
              @ replicate (length (t # ts) - (60 - count w)) False"
    proof -
      have "min (length (t # ts)) (60 - count w) = Suc (min (length ts) (60 - count w'))"
        using True by (simp add: cw')
      moreover have "length (t # ts) - (60 - count w) = length ts - (60 - count w')"
        using True by (simp add: cw')
      ultimately show ?thesis by simp
    qed
    have l2: "m'(k \<mapsto> w'\<lparr>count := min 60 (count w' + length ts)\<rparr>)
            = m(k \<mapsto> w\<lparr>count := min 60 (count w + length (t # ts))\<rparr>)"
      by (simp add: m'_def w'_def)
    show ?thesis
      unfolding lhs l1 l2 ..
  next
    case False
    then have c: "count w = 60" using Cons.prems by simp
    have step: "checkRateLimit k t m = (False, m)"
      using Cons.prems c by (simp add: checkRateLimit_blocked)
    have ih: "checkRateLimitCalls k ts m =
           (replicate (min (length ts) (60 - count w)) True
              @ replicate (length ts - (60 - count w)) False,
            m(k \<mapsto> w\<lparr>count := min 60 (count w + length ts)\<rparr>))"
      using Cons.prems by (intro Cons.IH) auto
    have lhs: "checkRateLimitCalls k (t # ts) m =
           (False # replicate (min (length ts) (60 - count w)) True
              @ replicate (length ts - (60 - count w)) False,
            m(k \<mapsto> w\<lparr>count := min 60 (count w + length ts)\<rparr>))"
      by (simp add: step ih)
    have l1: "False # replicate (min (length ts) (60 - count w)) True
              @ replicate (length ts - (60 - count w)) False
            = replicate (min (length (t # ts)) (60 - count w)) True
              @ replicate (length (t # ts) - (60 - count w)) False"
      by (simp add: c)
    have l2: "min 60 (count w + length ts) = min 60 (count w + length (t # ts))"
      by (simp add: c)
    show ?thesis
      unfolding lhs l1 l2 ..
  qed
qed

text \<open>
  Claim C5. For any service key whose first call opens a window at time \<open>t0\<close> (no
  window yet, or the old one expired), 61 calls made while the clock stays inside that
  window (no reading after \<open>t0 + 60000\<close>) answer true 60 times and then false; the
  next call after the reset time answers true and opens a fresh window with count 1.
\<close>

theorem checkRateLimit_sixty_then_refused:
  assumes fresh: "m k = None \<or> (\<exists>w. m k = Some w \<and> t0 > resetTime w)"
    and len: "length ts = 60"
    and inside: "\<forall>t \<in> set ts. t \<le> t0 + 60000"
  shows "fst (checkRateLimitCalls k (t0 # ts) m) = replicate 60 True @ [False] \<and>
         (\<forall>t'. t' > t0 + 60000 \<longrightarrow>
            fst (checkRateLimit k t' (snd (checkRateLimitCalls k (t0 # ts) m))) = True \<and>
            snd (checkRateLimit k t' (snd (checkRateLimitCalls k (t0 # ts) m))) k
              = Some \<lparr>count = 1, resetTime = t' + 60000\<rparr>)"
proof -
  define w0 where "w0 = \<lparr>count = 1, resetTime = t0 + 60000\<rparr>"
  define m0 where "m0 = m(k \<mapsto> w0)"
  have first: "checkRateLimit k t0 m = (True, m0)"
    using fresh by (simp add: checkRateLimit_fresh m0_def w0_def)
  have w0: "count w0 = 1" "resetTime w0 = t0 + 60000"
    by (simp_all add: w0_def)
  have rest: "checkRateLimitCalls k ts m0 =
           (replicate (min (length ts) (60 - count w0)) True
              @ replicate (length ts - (60 - count w0)) False,
            m0(k \<mapsto> w0\<lparr>count := min 60 (count w0 + length ts)\<rparr>))"
    using inside by (intro checkRateLimitCalls_window) (simp_all add: m0_def w0)
  have rest': "checkRateLimitCalls k ts m0 =
           (replicate 59 True @ [False], m0(k \<mapsto> w0\<lparr>count := 60\<rparr>))"
    unfolding rest by (simp add: len w0)
  have all: "checkRateLimitCalls k (t0 # ts) m =
           (replicate 60 True @ [False], m0(k \<mapsto> w0\<lparr>count := 60\<rparr>))"
  proof -
    have "True # replicate 59 True = replicate 60 True"
      by (simp add: numeral_eq_Suc)
    then show ?thesis by (simp add: first rest')
  qed
  have later: "checkRateLimit k t' (m0(k \<mapsto> w0\<lparr>count := 60\<rparr>))
                 = (True, (m0(k \<mapsto> w0\<lparr>count := 60\<rparr>))(k \<mapsto> \<lparr>count = 1, resetTime = t' + 60000\<rparr>))"
    if "t' > t0 + 60000" for t'
    using that by (intro checkRateLimit_fresh) (simp add: w0)
  show ?thesis
    unfolding all by (simp add: later)
qed

theorem checkRateLimit_sixty_then_refused_witness:
  "fst (checkRateLimitCalls ''weather'' (0 # replicate 60 1000) Map.empty)
     = replicate 60 True @ [False] \<and>
   fst (checkRateLimit ''weather'' 60001
          (snd (checkRateLimitCalls ''weather'' (0 # replicate 60 1000) Map.empty))) = True"
  using checkRateLimit_sixty_then_refused [of Map.empty "''weather''" 0 "replicate 60 1000"]
  by simp

text \<open>
  Claim C6, as the specification states it, is false: the refused call does not
  increment. A window at the ceiling (count 60) that is refused at time 1000 still holds
  count 60 afterwards, not 61.
\<close>

theorem checkRateLimit_refusal_increments_counterexample:
  "fst (checkRateLimit ''weather'' 1000 fullWindow) = False \<and>
   map_option count (fullWindow ''weather'') = Some 60 \<and>
   map_option count (snd (checkRateLimit ''weather'' 1000 fullWindow) ''weather'') = Some 60 \<and>
   map_option count (snd (checkRateLimit ''weather'' 1000 fullWindow) ''weather'')
     \<noteq> map_option (\<lambda>w. count w + 1) (fullWindow ''weather'')"
  by (simp add: checkRateLimit_def fullWindow_def MAX_REQUESTS_PER_WINDOW_def)

text \<open>
  Claim C6, amended. When a call is refused because the count of an unexpired window
  has reached the ceiling, the ceiling test comes before the increment: the map, and so
  the stored count, is left as it was, and every later call inside the same window is
  refused as well.
\<close>

theorem checkRateLimit_refusal_leaves_count:
  assumes "m k = Some w" and "t \<le> resetTime w" and "count w \<ge> 60"
  shows "checkRateLimit k t m = (False, m) \<and>
         (t' \<le> resetTime w \<longrightarrow>
            fst (checkRateLimit k t' (snd (checkRateLimit k t m))) = False)"
  using assms by (simp add: checkRateLimit_blocked)

theorem checkRateLimit_refusal_leaves_count_witness:
  "checkRateLimit ''weather'' 1000 fullWindow = (False, fullWindow) \<and>
   fst (checkRateLimit ''weather'' 2000 (snd (checkRateLimit ''weather'' 1000 fullWindow))) = False"
proof -
  have h: "fullWindow ''weather'' = Some \<lparr>count = 60, resetTime = 60000\<rparr>"
    by (simp add: fullWindow_def)
  show ?thesis
    using h checkRateLimit_refusal_leaves_count
            [of fullWindow "''weather''" "\<lparr>count = 60, resetTime = 60000\<rparr>" 1000 2000]
    by auto
qed

subsection \<open>Objects\<close>

lemma objGet_objDelete: "objGet (objDelete k obj) k' = (if k' = k then None else objGet obj k')"
  unfolding objGet_def objDelete_def by (induction obj) auto

lemma set_insert_mid: "set (takeWhile P xs @ x # dropWhile P xs) = insert x (set xs)"
proof -
  have "set (as @ x # bs) = insert x (set (as @ bs))" for as bs :: "'a list"
    by simp
  from this [of "takeWhile P xs" "dropWhile P xs"] show ?thesis
    by (simp only: takeWhile_dropWhile_id)
qed

lemma length_insert_mid: "length (takeWhile P xs @ x # dropWhile P xs) = Suc (length xs)"
proof -
  have "length (as @ x # bs) = Suc (length (as @ bs))" for as bs :: "'a list"
    by simp
  from this [of "takeWhile P xs" "dropWhile P xs"] show ?thesis
    by (simp only: takeWhile_dropWhile_id)
qed

lemma distinct_map_insert:
  "f x \<notin> f ` set (as @ bs) \<Longrightarrow> distinct (map f (as @ bs)) \<Longrightarrow> distinct (map f (as @ x # bs))"
  by auto

lemma distinct_insert_mid:
  assumes "f x \<notin> f ` set xs" and "distinct (map f xs)"
  shows "distinct (map f (takeWhile P xs @ x # dropWhile P xs))"
proof -
  have a: "f x \<notin> f ` set (takeWhile P xs @ dropWhile P xs)"
    using assms(1) by simp
  have b: "distinct (map f (takeWhile P xs @ dropWhile P xs))"
    using assms(2) by simp
  show ?thesis by (rule distinct_map_insert [OF a b])
qed

lemma map_of_insert:
  "k \<notin> fst ` set as \<Longrightarrow>
   map_of (as @ (k, v) # bs) k' = (if k' = k then Some v else map_of (as @ bs) k')"
  by (induction as) (auto simp del: map_of_append)

lemma map_of_insert_mid:
  assumes "k \<notin> fst ` set xs"
  shows "map_of (takeWhile P xs @ (k, v) # dropWhile P xs) k' = (if k' = k then Some v else map_of xs k')"
proof -
  have "k \<notin> fst ` set (takeWhile P xs)"
    using assms by (auto dest: set_takeWhileD)
  from map_of_insert [OF this, of v "dropWhile P xs" k'] show ?thesis
    by (simp only: takeWhile_dropWhile_id)
qed

lemma map_of_replace:
  "map_of (map (\<lambda>p. if fst p = k then (k, v) else p) obj) k'
     = (if k' = k \<and> k \<in> fst ` set obj then Some v else map_of obj k')"
proof (induction obj)
  case Nil
  then show ?case by simp
next
  case (Cons p obj)
  show ?case
  proof (cases "k \<in> fst ` set obj")
    case True
    then show ?thesis using Cons.IH by (cases p) auto
  next
    case False
    then show ?thesis using Cons.IH by (cases p) simp
  qed
qed

lemma map_fst_replace:
  "map fst (map (\<lambda>p. if fst p = k then (k, v) else p) obj) = map fst obj"
  by (induction obj) auto

lemma map_of_snoc:
  "k \<notin> fst ` set obj \<Longrightarrow> map_of (obj @ [(k, v)]) k' = (if k' = k then Some v else map_of obj k')"
  using map_of_insert [of k obj v "[]" k'] by simp

lemma objGet_objSet: "objGet (objSet k v obj) k' = (if k' = k then Some v else objGet obj k')"
proof (cases "k \<in> fst ` set obj")
  case True
  then show ?thesis by (simp add: objGet_def objSet_def map_of_replace)
next
  case False
  show ?thesis
  proof (cases "arrayIndex k")
    case None
    then show ?thesis using False map_of_snoc [OF False, of v k']
      by (simp add: objGet_def objSet_def del: map_of_append)
  next
    case (Some n)
    then show ?thesis using False map_of_insert_mid [OF False, of "precedesIndex n" v k']
      by (simp add: objGet_def objSet_def del: map_of_append)
  qed
qed

lemma keys_objSet: "fst ` set (objSet k v obj) = insert k (fst ` set obj)"
proof (cases "k \<in> fst ` set obj")
  case True
  have "set (map fst (objSet k v obj)) = set (map fst obj)"
    using True by (simp only: objSet_def if_True map_fst_replace)
  then show ?thesis using True by auto
next
  case False
  show ?thesis
  proof (cases "arrayIndex k")
    case None
    then show ?thesis using False by (simp add: objSet_def)
  next
    case (Some n)
    then show ?thesis using False set_insert_mid [of "precedesIndex n" obj "(k, v)"]
      by (simp add: objSet_def)
  qed
qed

lemma distinct_objSet:
  assumes "distinct (map fst obj)"
  shows "distinct (map fst (objSet k v obj))"
proof (cases "k \<in> fst ` set obj")
  case True
  then show ?thesis using assms by (simp only: objSet_def if_True map_fst_replace)
next
  case False
  show ?thesis
  proof (cases "arrayIndex k")
    case None
    then show ?thesis using False assms by (simp add: objSet_def)
  next
    case (Some n)
    have "distinct (map fst (takeWhile (precedesIndex n) obj @ (k, v) # dropWhile (precedesIndex n) obj))"
      using False assms by (intro distinct_insert_mid) simp_all
    then show ?thesis using False Some by (simp add: objSet_def)
  qed
qed

lemma length_objSet:
  "length (objSet k v obj) = (if k \<in> fst ` set obj then length obj else Suc (length obj))"
proof (cases "arrayIndex k")
  case None
  then show ?thesis by (simp add: objSet_def)
next
  case (Some n)
  then show ?thesis using length_insert_mid [of "precedesIndex n" obj "(k, v)"]
    by (simp add: objSet_def)
qed

lemma set_objSet_new:
  assumes "k \<notin> fst ` set obj"
  shows "set (objSet k v obj) = insert (k, v) (set obj)"
proof (cases "arrayIndex k")
  case None
  then show ?thesis using assms by (simp add: objSet_def)
next
  case (Some n)
  then show ?thesis using assms set_insert_mid [of "precedesIndex n" obj "(k, v)"]
    by (simp add: objSet_def)
qed

lemma filter_objDelete:
  "filter (\<lambda>p. fst p \<notin> K) (objDelete k cache) = filter (\<lambda>p. fst p \<notin> insert k K) cache"
  unfolding objDelete_def by (induction cache) auto

lemma fold_objDelete:
  "fold (\<lambda>entry. objDelete (fst entry)) vs cache = filter (\<lambda>p. fst p \<notin> fst ` set vs) cache"
proof (induction vs arbitrary: cache)
  case Nil
  then show ?case by simp
next
  case (Cons v vs)
  have "fold (\<lambda>entry. objDelete (fst entry)) (v # vs) cache
          = filter (\<lambda>p. fst p \<notin> fst ` set vs) (objDelete (fst v) cache)"
    by (simp add: Cons.IH)
  also have "\<dots> = filter (\<lambda>p. fst p \<notin> insert (fst v) (fst ` set vs)) cache"
    by (rule filter_objDelete)
  finally show ?case by simp
qed

lemma length_filter_keys:
  assumes "distinct (map fst cache)" and "K \<subseteq> fst ` set cache"
  shows "length (filter (\<lambda>p. fst p \<notin> K) cache) = length cache - card K"
proof -
  have "map fst (filter (\<lambda>p. fst p \<in> K) cache) = filter (\<lambda>k. k \<in> K) (map fst cache)"
    by (induction cache) auto
  moreover have "distinct (filter (\<lambda>k. k \<in> K) (map fst cache))"
    using assms(1) by simp
  moreover have "set (filter (\<lambda>k. k \<in> K) (map fst cache)) = K"
    using assms(2) by auto
  ultimately have "length (filter (\<lambda>p. fst p \<in> K) cache) = card K"
    using distinct_card [of "filter (\<lambda>k. k \<in> K) (map fst cache)"]
          length_map [of fst "filter (\<lambda>p. fst p \<in> K) cache"]
    by simp
  moreover have "length (filter (\<lambda>p. fst p \<in> K) cache)
                   + length (filter (\<lambda>p. \<not> fst p \<in> K) cache) = length cache"
    by (rule sum_length_filter_compl)
  ultimately show ?thesis by simp
qed

lemma length_limitCacheSize:
  assumes "distinct (map fst cache)"
  shows "length (limitCacheSize cache maxSize) = min (length cache) maxSize"
proof (cases "length cache \<le> maxSize")
  case True
  then show ?thesis by (simp add: limitCacheSize_def)
next
  case False
  define n where "n = length cache - maxSize"
  define sorted where "sorted = sort_key (\<lambda>entry. timestamp (snd entry)) cache"
  define vs where "vs = take n sorted"
  have ss: "set sorted = set cache" and ls: "length sorted = length cache"
    by (simp_all add: sorted_def)
  have "distinct (map fst sorted)"
    using assms unfolding sorted_def by (simp add: distinct_map)
  then have "distinct (take n (map fst sorted))"
    by (rule distinct_take)
  then have dv: "distinct (map fst vs)"
    by (simp add: vs_def take_map)
  have lv: "length vs = n"
    unfolding vs_def n_def by (simp add: ls)
  have "set vs \<subseteq> set cache"
    unfolding vs_def using set_take_subset [of n sorted] ss by simp
  then have sub: "fst ` set vs \<subseteq> fst ` set cache"
    by auto
  have "card (fst ` set vs) = n"
    using distinct_card [OF dv] lv by simp
  then have "length (filter (\<lambda>p. fst p \<notin> fst ` set vs) cache) = length cache - n"
    using length_filter_keys [OF assms sub] by simp
  moreover have "limitCacheSize cache maxSize = filter (\<lambda>p. fst p \<notin> fst ` set vs) cache"
    using False by (simp add: limitCacheSize_def fold_objDelete vs_def n_def sorted_def)
  ultimately show ?thesis using False by (simp add: n_def)
qed

subsection \<open>The expiring cache\<close>

lemma sort_key_hd_min:
  assumes "xs \<noteq> []"
  shows "hd (sort_key f xs) \<in> set xs \<and> (\<forall>e \<in> set xs. f (hd (sort_key f xs)) \<le> f e)"
proof -
  define ys where "ys = sort_key f xs"
  have ne: "ys \<noteq> []" using assms by (auto simp: ys_def dest: arg_cong [where f = length])
  have s: "sorted (map f ys)" and st: "set ys = set xs"
    by (simp_all add: ys_def)
  obtain y ys' where ys: "ys = y # ys'" using ne by (cases ys) auto
  have "\<forall>e \<in> set ys. f y \<le> f e"
    using s unfolding ys by auto
  then show ?thesis
    using st ys unfolding ys_def [symmetric] by auto
qed

lemma limitCacheSize_one_over:
  assumes len: "length cache = Suc maxSize"
    and old: "old \<in> set cache" "\<forall>e \<in> set cache. timestamp (snd old) \<le> timestamp (snd e)"
    and dt: "distinct (map (\<lambda>e. timestamp (snd e)) cache)"
  shows "limitCacheSize cache maxSize = objDelete (fst old) cache"
proof -
  let ?f = "\<lambda>e. timestamp (snd e)"
  have ne: "cache \<noteq> []" using len by auto
  define h where "h = hd (sort_key ?f cache)"
  have h: "h \<in> set cache" "\<forall>e \<in> set cache. ?f h \<le> ?f e"
    using sort_key_hd_min [OF ne, of ?f] by (simp_all add: h_def)
  have "?f h = ?f old"
    using h old by (meson order_antisym)
  then have "h = old"
    using dt h(1) old(1) by (meson distinct_map inj_onD)
  have "sort_key ?f cache \<noteq> []"
    using ne by (auto dest: arg_cong [where f = length])
  then have "take 1 (sort_key ?f cache) = [h]"
    unfolding h_def by (cases "sort_key ?f cache") auto
  then show ?thesis
    using len \<open>h = old\<close> by (simp add: limitCacheSize_def)
qed

text \<open>
  Claim C7. A lookup that runs strictly after the \<open>expiresAt\<close> of the entry stored
  under its key returns \<^verbatim>\<open>null\<close>, for the location cache and for the weather cache
  alike; the entry is deleted from the object read from the store and, the store
  accepting the write, the object without the entry is what the store holds when the
  call returns.
\<close>

theorem expired_entry_never_returned:
  "(objGet (getLocationCache st) (normalizeQuery query) = Some e \<and> now > expiresAt e \<longrightarrow>
      fst (getCachedLocationSearch query now st) = None \<and>
      (acceptsWrites st \<longrightarrow>
         locationItem (snd (getCachedLocationSearch query now st))
           = Item (objDelete (normalizeQuery query) (getLocationCache st)) \<and>
         objGet (getLocationCache (snd (getCachedLocationSearch query now st)))
           (normalizeQuery query) = None)) \<and>
   (objGet (getWeatherCache st) (getWeatherCacheKey lat lon) = Some e' \<and> now > expiresAt e' \<longrightarrow>
      fst (getCachedWeatherData lat lon now st) = None \<and>
      (acceptsWrites st \<longrightarrow>
         weatherItem (snd (getCachedWeatherData lat lon now st))
           = Item (objDelete (getWeatherCacheKey lat lon) (getWeatherCache st)) \<and>
         objGet (getWeatherCache (snd (getCachedWeatherData lat lon now st)))
           (getWeatherCacheKey lat lon) = None))"
  by (simp add: getCachedLocationSearch_def getCachedWeatherData_def setLocationItem_def
        setWeatherItem_def getLocationCache_def getWeatherCache_def objGet_objDelete Let_def)

theorem expired_entry_never_returned_witness:
  "fst (getCachedLocationSearch ''New  York'' 2000 staleStore) = None \<and>
   locationItem (snd (getCachedLocationSearch ''New  York'' 2000 staleStore)) = Item [] \<and>
   fst (getCachedWeatherData (Num 40) (Num (-74)) 2000 staleStore) = None \<and>
   weatherItem (snd (getCachedWeatherData (Num 40) (Num (-74)) 2000 staleStore)) = Item []"
proof -
  have k1: "normalizeQuery ''New  York'' = ''new york''"
    by (simp add: evalString)
  have k2: "getWeatherCacheKey (Num 40) (Num (-74)) = ''40,-74''"
    by (simp add: evalKey)
  have lc: "getLocationCache staleStore
              = [(''new york'', \<lparr>data = [], timestamp = 0, expiresAt = 1000\<rparr>)]"
    by (simp add: staleStore_def getLocationCache_def)
  have wc: "getWeatherCache staleStore
              = [(''40,-74'', \<lparr>data = \<lparr>current = sampleCurrent, forecast = []\<rparr>,
                                      timestamp = 0, expiresAt = 1000\<rparr>)]"
    by (simp add: staleStore_def getWeatherCache_def)
  have w: "acceptsWrites staleStore"
    by (simp add: staleStore_def)
  show ?thesis
    using expired_entry_never_returned
      [of staleStore "''New  York''" "\<lparr>data = [], timestamp = 0, expiresAt = 1000\<rparr>" 2000
          "Num 40" "Num (-74)"
          "\<lparr>data = \<lparr>current = sampleCurrent, forecast = []\<rparr>, timestamp = 0, expiresAt = 1000\<rparr>"]
    by (simp add: k1 k2 lc wc w objGet_def objDelete_def)
qed

text \<open>
  Claim C8. After \<^verbatim>\<open>cacheLocationSearch\<close> the stored location cache has at most 50
  entries. When the cache held 50 entries, the key is new and all 51 creation timestamps
  differ, the stored cache is the 51 entries without the one of least timestamp
  (\<open>old\<close>), and has exactly 50 entries. The cache object read from the store has each
  key once, and the store accepts the write.
\<close>

theorem cacheLocationSearch_bounded:
  assumes wf: "distinct (map fst (getLocationCache st))" and w: "acceptsWrites st"
  shows "length (getLocationCache (cacheLocationSearch query locations now st)) \<le> 50 \<and>
         (let cache = objSet (normalizeQuery query)
                        \<lparr>data = locations, timestamp = now,
                         expiresAt = now + LOCATION_CACHE_DURATION\<rparr> (getLocationCache st)
          in length (getLocationCache st) = 50
             \<and> normalizeQuery query \<notin> fst ` set (getLocationCache st)
             \<and> distinct (map (\<lambda>e. timestamp (snd e)) cache)
             \<and> old \<in> set cache \<and> (\<forall>e \<in> set cache. timestamp (snd old) \<le> timestamp (snd e))
             \<longrightarrow> getLocationCache (cacheLocationSearch query locations now st)
                   = objDelete (fst old) cache
                 \<and> length (getLocationCache (cacheLocationSearch query locations now st)) = 50)"
proof -
  define cache where "cache = objSet (normalizeQuery query)
                        \<lparr>data = locations, timestamp = now,
                         expiresAt = now + LOCATION_CACHE_DURATION\<rparr> (getLocationCache st)"
  have d: "distinct (map fst cache)"
    unfolding cache_def using wf by (rule distinct_objSet)
  have after: "getLocationCache (cacheLocationSearch query locations now st) = limitCacheSize cache 50"
    using w by (simp add: cacheLocationSearch_def setLocationItem_def getLocationCache_def
                  MAX_LOCATION_CACHE_SIZE_def cache_def Let_def)
  have l: "length (limitCacheSize cache 50) = min (length cache) 50"
    using d by (rule length_limitCacheSize)
  have one: "limitCacheSize cache 50 = objDelete (fst old) cache \<and> length (limitCacheSize cache 50) = 50"
    if "length (getLocationCache st) = 50" "normalizeQuery query \<notin> fst ` set (getLocationCache st)"
       "distinct (map (\<lambda>e. timestamp (snd e)) cache)" "old \<in> set cache"
       "\<forall>e \<in> set cache. timestamp (snd old) \<le> timestamp (snd e)"
  proof -
    have "length cache = Suc 50"
      using that(1,2) by (simp add: cache_def length_objSet)
    then show ?thesis
      using that l limitCacheSize_one_over [of cache 50 old] by simp
  qed
  show ?thesis
    unfolding cache_def [symmetric] Let_def after using l one by auto
qed

theorem cacheLocationSearch_bounded_witness:
  "length (getLocationCache (cacheLocationSearch ''Paris'' [] 100 fullStore)) = 50 \<and>
   objGet (getLocationCache (cacheLocationSearch ''Paris'' [] 100 fullStore)) ''a'' = None \<and>
   objGet (getLocationCache (cacheLocationSearch ''Paris'' [] 100 fullStore)) ''paris''
     = Some \<lparr>data = [], timestamp = 100, expiresAt = 100 + LOCATION_CACHE_DURATION\<rparr>"
proof -
  define cache0 where "cache0 = getLocationCache fullStore"
  define new where "new = \<lparr>data = ([] :: Location list), timestamp = 100,
                            expiresAt = 100 + LOCATION_CACHE_DURATION\<rparr>"
  define old where "old = (''a'', \<lparr>data = ([] :: Location list), timestamp = 0, expiresAt = 86400000\<rparr>)"
  have c0: "cache0 = map (\<lambda>i. (replicate (Suc i) CHR ''a'',
                \<lparr>data = [], timestamp = int i, expiresAt = int i + 86400000\<rparr>)) [0..<50]"
    by (simp add: cache0_def fullStore_def getLocationCache_def)
  have k: "normalizeQuery ''Paris'' = ''paris''"
    by (simp add: evalString)
  have keys: "map fst cache0 = map (\<lambda>i. replicate (Suc i) CHR ''a'') [0..<50]"
    by (simp add: c0 comp_def)
  have d: "distinct (map fst cache0)"
    unfolding keys by (auto simp: distinct_map inj_on_def dest: arg_cong [where f = length])
  have notin: "''paris'' \<notin> fst ` set cache0"
    by (auto simp: c0)
  have ai: "arrayIndex ''paris'' = None"
    by (simp add: arrayIndex_def isDigit_def)
  have c1: "objSet ''paris'' new cache0 = cache0 @ [(''paris'', new)]"
    using notin by (simp add: objSet_def ai)
  have dt: "distinct (map (\<lambda>e. timestamp (snd e)) (objSet ''paris'' new cache0))"
    unfolding c1 by (auto simp: c0 new_def comp_def distinct_map inj_on_def)
  have oldin: "old \<in> set (objSet ''paris'' new cache0)"
    unfolding c1 by (auto simp: c0 old_def image_iff intro!: bexI [of _ 0])
  have oldmin: "\<forall>e \<in> set (objSet ''paris'' new cache0). timestamp (snd old) \<le> timestamp (snd e)"
    unfolding c1 by (auto simp: c0 new_def old_def)
  have w: "acceptsWrites fullStore"
    by (simp add: fullStore_def)
  have len: "length cache0 = 50"
    by (simp add: c0)
  have main: "getLocationCache (cacheLocationSearch ''Paris'' [] 100 fullStore)
                = objDelete ''a'' (objSet ''paris'' new cache0)
             \<and> length (getLocationCache (cacheLocationSearch ''Paris'' [] 100 fullStore)) = 50"
    using cacheLocationSearch_bounded [of fullStore "''Paris''" "[]" 100 old] d w len notin dt oldin oldmin
    unfolding Let_def k cache0_def [symmetric] new_def [symmetric]
    by (auto simp: old_def)
  show ?thesis
    using main notin by (auto simp: objGet_objDelete objGet_objSet new_def)
qed

subsection \<open>Retry and the offline check\<close>

text \<open>
  Claim C1, as the specification states it, is false. The offline test sits inside the
  \<^verbatim>\<open>try\<close> block of the attempt, so the error it throws goes through the same
  \<^verbatim>\<open>catch\<close> as a failure of the operation. With the default configuration and the
  network down throughout, the call raises only after three attempts and two back-off
  sleeps (1000 ms and 2000 ms, the jitter being 0 here); and when the network is back
  after the first sleep, the call does not raise at all.
\<close>

theorem offline_attempt_backs_off_counterexample:
  "executeWithRetry (quietEnv fetchFailure) DEFAULT_RETRY_CONFIG succeed ''operation'' offlineWorld
     = (Inl (AppErr offlineError), offlineWorld\<lparr>clock := 3000, log := [Slept 1000, Slept 2000]\<rparr>) \<and>
   executeWithRetry (reconnectingEnv fetchFailure) DEFAULT_RETRY_CONFIG succeed ''operation'' offlineWorld
     = (Inr ''success'', offlineWorld\<lparr>clock := 1000, online := True, log := [Slept 1000]\<rparr>)"
  by (simp add: executeWithRetry_def executeAttempts.simps evalEnv DEFAULT_RETRY_CONFIG_def
        thrownAtOnce_def offlineError_def createAppError_def toError_def)

text \<open>
  Claim C1, amended. When \<^verbatim>\<open>isNetworkOnline()\<close> is false at the start of an attempt,
  the operation is not invoked in that attempt and the attempt fails with the retryable
  network error "No internet connection"; this failure is treated as any retryable
  failure is. When \<^verbatim>\<open>network\<close> is among the retryable kinds (the default), the error
  is raised on the last attempt, and on an earlier attempt the engine sleeps the
  back-off delay and goes on with the next attempt; when it is not, the error is raised
  at once. It is \<^verbatim>\<open>handleApiRequest\<close> that raises at once, without rate-limit count,
  attempt or sleep, when the network is down as the request starts.
\<close>

theorem offline_attempt_is_retryable_failure:
  assumes off: "\<not> online w"
  shows "(Network \<in> set (retryableErrors cfg) \<and> attempt = maxAttempts cfg \<longrightarrow>
            executeAttempts e cfg operation operationName attempt lastError w
              = (Inl (AppErr offlineError), w)) \<and>
         (Network \<in> set (retryableErrors cfg) \<and> attempt < maxAttempts cfg \<longrightarrow>
            executeAttempts e cfg operation operationName attempt lastError w
              = (let delay = min (baseDelay cfg * backoffMultiplier cfg ^ (attempt - 1)) (maxDelay cfg);
                     jitteredDelay = delay + fst (envRandom e w) * 1000;
                     w2 = snd (envRandom e w)
                 in executeAttempts e cfg operation operationName (attempt + 1)
                      (Some \<lparr>errName = ''Error'', errMessage = ''[object Object]''\<rparr>)
                      (envSleep e jitteredDelay (w2\<lparr>log := log w2 @ [Slept jitteredDelay]\<rparr>)))) \<and>
         (Network \<notin> set (retryableErrors cfg) \<and> attempt \<le> maxAttempts cfg \<longrightarrow>
            executeAttempts e cfg operation operationName attempt lastError w
              = (Inl (AppErr offlineError), w)) \<and>
         handleApiRequest e cfg operation context serviceKey w
           = (Inl (AppErr (createOfflineError context)), w)"
proof -
  have t: "thrownAtOnce cfg (AppErr offlineError) \<longleftrightarrow> Network \<notin> set (retryableErrors cfg)"
    by (simp add: thrownAtOnce_def offlineError_def createAppError_def)
  have a: "executeAttempts e cfg operation operationName attempt lastError w
              = (Inl (AppErr offlineError), w)"
    if "Network \<in> set (retryableErrors cfg)" "attempt = maxAttempts cfg"
    using that off by (subst executeAttempts.simps) (simp add: t)
  have b: "executeAttempts e cfg operation operationName attempt lastError w
              = (let delay = min (baseDelay cfg * backoffMultiplier cfg ^ (attempt - 1)) (maxDelay cfg);
                     jitteredDelay = delay + fst (envRandom e w) * 1000;
                     w2 = snd (envRandom e w)
                 in executeAttempts e cfg operation operationName (attempt + 1)
                      (Some \<lparr>errName = ''Error'', errMessage = ''[object Object]''\<rparr>)
                      (envSleep e jitteredDelay (w2\<lparr>log := log w2 @ [Slept jitteredDelay]\<rparr>)))"
    if "Network \<in> set (retryableErrors cfg)" "attempt < maxAttempts cfg"
    using that off by (subst executeAttempts.simps) (simp add: t toError_def Let_def)
  have c: "executeAttempts e cfg operation operationName attempt lastError w
              = (Inl (AppErr offlineError), w)"
    if "Network \<notin> set (retryableErrors cfg)" "attempt \<le> maxAttempts cfg"
    using that off by (subst executeAttempts.simps) (simp add: t)
  have d: "handleApiRequest e cfg operation context serviceKey w
           = (Inl (AppErr (createOfflineError context)), w)"
    using off by (simp add: handleApiRequest_def)
  show ?thesis using a b c d by blast
qed

theorem offline_attempt_is_retryable_failure_witness:
  "executeAttempts (quietEnv fetchFailure) DEFAULT_RETRY_CONFIG succeed ''operation'' 3 None offlineWorld
     = (Inl (AppErr offlineError), offlineWorld) \<and>
   executeAttempts (quietEnv fetchFailure) DEFAULT_RETRY_CONFIG succeed ''operation'' 1 None offlineWorld
     = executeAttempts (quietEnv fetchFailure) DEFAULT_RETRY_CONFIG succeed ''operation'' 2
         (Some \<lparr>errName = ''Error'', errMessage = ''[object Object]''\<rparr>)
         (offlineWorld\<lparr>log := [Slept 1000], clock := 1000\<rparr>) \<and>
   handleApiRequest (quietEnv fetchFailure) DEFAULT_RETRY_CONFIG succeed ''Weather'' ''weather'' offlineWorld
     = (Inl (AppErr (createOfflineError ''Weather'')), offlineWorld)"
proof -
  have off: "\<not> online offlineWorld" by (simp add: offlineWorld_def)
  have cfg: "maxAttempts DEFAULT_RETRY_CONFIG = 3" "baseDelay DEFAULT_RETRY_CONFIG = 1000"
    "maxDelay DEFAULT_RETRY_CONFIG = 10000" "backoffMultiplier DEFAULT_RETRY_CONFIG = 2"
    "retryableErrors DEFAULT_RETRY_CONFIG = [Network, Api]"
    by (simp_all add: DEFAULT_RETRY_CONFIG_def)
  have env: "envRandom (quietEnv fetchFailure) = (\<lambda>w. (0, w))"
    "envSleep (quietEnv fetchFailure) = (\<lambda>ms w. w\<lparr>clock := clock w + \<lceil>ms\<rceil>\<rparr>)"
    by (simp_all add: quietEnv_def)
  have w0: "clock offlineWorld = 0" "log offlineWorld = []"
    by (simp_all add: offlineWorld_def)
  show ?thesis
    using offline_attempt_is_retryable_failure
            [OF off, of DEFAULT_RETRY_CONFIG 3 "quietEnv fetchFailure" succeed "''operation''" None
               "''Weather''" "''weather''"]
          offline_attempt_is_retryable_failure
            [OF off, of DEFAULT_RETRY_CONFIG 1 "quietEnv fetchFailure" succeed "''operation''" None
               "''Weather''" "''weather''"]
    by (simp add: cfg env w0 Let_def numeral_2_eq_2)
qed

subsection \<open>Requests that go through\<close>

text \<open>A request that finds the network up and the rate limiter open, and whose first
  \<^verbatim>\<open>fetch\<close> settles to a response with a success status, returns that response.\<close>

lemma handleFetch_first_response:
  assumes "online w"
    and "checkRateLimit (toLowerCase context) (clock w) (requestCounts w) = (True, counts)"
    and "1 \<le> maxAttempts cfg"
    and "envFetch e u (w\<lparr>requestCounts := counts, log := log w @ [Fetched u]\<rparr>) = (Inr response, w2)"
    and "ok response"
  shows "handleFetch e cfg u context w = (Inr response, w2)"
  using assms
  by (simp add: handleFetch_def handleApiRequest_def executeWithRetry_def fetchOperation_def)
     (subst executeAttempts.simps, simp add: fetchOperation_def)


lemma fetchJson_first_response:
  assumes "online w"
    and "checkRateLimit (toLowerCase context) (clock w) (requestCounts w) = (True, counts)"
    and "1 \<le> maxAttempts cfg"
    and "envFetch e u (w\<lparr>requestCounts := counts, log := log w @ [Fetched u]\<rparr>) = (Inr response, w2)"
    and "ok response"
  shows "fetchJson e cfg u context w
           = (case body response of Inl err \<Rightarrow> (Inl (JsErr err), w2) | Inr d \<Rightarrow> (Inr d, w2))"
  using handleFetch_first_response [OF assms] by (simp add: fetchJson_def)

text \<open>In the quiet environment, with the network up and no window open, a request
  settles to the response on its first attempt.\<close>

lemma fetchJson_quiet:
  assumes "1 \<le> maxAttempts rcfg" and "ok response"
    and "online w" and "requestCounts w = Map.empty"
  shows "fetchJson (quietEnv (Inr response)) rcfg u context w
           = (case body response of
                Inl err \<Rightarrow> (Inl (JsErr err),
                   w\<lparr>requestCounts := [toLowerCase context \<mapsto> \<lparr>count = 1, resetTime = clock w + 60000\<rparr>],
                     log := log w @ [Fetched u]\<rparr>)
              | Inr d \<Rightarrow> (Inr d,
                   w\<lparr>requestCounts := [toLowerCase context \<mapsto> \<lparr>count = 1, resetTime = clock w + 60000\<rparr>],
                     log := log w @ [Fetched u]\<rparr>))"
proof -
  have c: "checkRateLimit (toLowerCase context) (clock w) (requestCounts w)
             = (True, [toLowerCase context \<mapsto> \<lparr>count = 1, resetTime = clock w + 60000\<rparr>])"
    using assms(4) by (simp add: checkRateLimit_def RATE_LIMIT_WINDOW_def)
  have f: "envFetch (quietEnv (Inr response)) u
             (w\<lparr>requestCounts := [toLowerCase context \<mapsto> \<lparr>count = 1, resetTime = clock w + 60000\<rparr>],
                log := log w @ [Fetched u]\<rparr>)
           = (Inr response,
              w\<lparr>requestCounts := [toLowerCase context \<mapsto> \<lparr>count = 1, resetTime = clock w + 60000\<rparr>],
                log := log w @ [Fetched u]\<rparr>)"
    by (simp add: quietEnv_def)
  show ?thesis
    by (rule fetchJson_first_response [OF assms(3) c assms(1) f assms(2)])
qed

lemma retryConfigs_attempts:
  "1 \<le> maxAttempts locationRetryConfig" "1 \<le> maxAttempts weatherRetryConfig"
  by (simp_all add: locationRetryConfig_def weatherRetryConfig_def DEFAULT_RETRY_CONFIG_def)

lemma onlineWorld_fields:
  "online onlineWorld" "requestCounts onlineWorld = Map.empty" "clock onlineWorld = 0"
  "store onlineWorld = emptyStore" "log onlineWorld = []"
  by (simp_all add: onlineWorld_def)

lemma emptyStore_caches:
  "getLocationCache emptyStore = []" "getWeatherCache emptyStore = []" "acceptsWrites emptyStore"
  by (simp_all add: emptyStore_def getLocationCache_def getWeatherCache_def)

lemma emptyStore_misses:
  "getCachedLocationSearch q now emptyStore = (None, emptyStore)"
  "getCachedWeatherData lat lon now emptyStore = (None, emptyStore)"
  by (simp_all add: getCachedLocationSearch_def getCachedWeatherData_def emptyStore_caches objGet_def)

lemma coordinates_40_74: "validateCoordinates (JNum (Num 40)) (JNum (Num (- 74))) = None"
  by (simp add: validateCoordinates_def numGreater_def)

lemma fetchJson_quiet_online:
  assumes "1 \<le> maxAttempts rcfg" and "ok \<lparr>status = st, body = Inr d\<rparr>"
  shows "fetchJson (quietEnv (Inr \<lparr>status = st, body = Inr d\<rparr>)) rcfg u ctx onlineWorld
           = (Inr d, onlineWorld\<lparr>requestCounts := [toLowerCase ctx \<mapsto> \<lparr>count = 1, resetTime = 60000\<rparr>],
                       log := [Fetched u]\<rparr>)"
  by (simp add: fetchJson_quiet [OF assms onlineWorld_fields(1,2)] onlineWorld_fields)

lemma ok_200: "ok \<lparr>status = 200, body = b\<rparr>"
  by (simp add: ok_def)

lemma onlineWorld_store: "onlineWorld\<lparr>store := emptyStore\<rparr> = onlineWorld"
  by (simp add: onlineWorld_def)

lemma sanitizeQuery_test: "sanitizeQuery ''test'' = ''test''"
  by (simp add: sanitizeQuery_def trim_def isWhiteSpace_def)

lemmas evalGeo = isValidLocationResult_def transformLocationResult_def geoRecord_def geoLocation_def
  hasProp_def propOf_def getProp_def typeofNumber_def typeofString_def

subsection \<open>Unexpected throws\<close>

text \<open>
  Claim C4 describes what the repository's tests expect ("should handle JSON parsing
  errors", "should handle malformed JSON responses"), and the code does not do it:
  \<^verbatim>\<open>response.json()\<close> is awaited after \<^verbatim>\<open>handleFetch\<close> has returned, and the catch
  block of each client method re-throws what it caught. When the body of a successful
  response does not parse, the caller of each of the four client methods observes the
  \<^verbatim>\<open>SyntaxError\<close> itself, which is not an \<^verbatim>\<open>AppError\<close>.
\<close>

theorem unexpected_throw_is_not_wrapped:
  "fst (searchLocations (quietEnv malformedJson) defaultConfig ''London'' onlineWorld)
     = Inl (JsErr syntaxError) \<and>
   fst (getCurrentWeather (quietEnv malformedJson) defaultConfig (Num 40) (Num (- 74)) onlineWorld)
     = Inl (JsErr syntaxError) \<and>
   fst (getForecast (quietEnv malformedJson) defaultConfig (Num 40) (Num (- 74)) onlineWorld)
     = Inl (JsErr syntaxError) \<and>
   fst (getCompleteWeatherData (quietEnv malformedJson) defaultConfig (Num 40) (Num (- 74)) onlineWorld)
     = Inl (JsErr syntaxError)"
proof -
  have okr: "ok \<lparr>status = 200, body = Inl syntaxError\<rparr>"
    by (simp add: ok_def)
  have q: "sanitizeQuery ''London'' = ''London''"
    by (simp add: sanitizeQuery_def trim_def isWhiteSpace_def)
  have fj: "fetchJson (quietEnv malformedJson) rcfg u ctx onlineWorld
              = (Inl (JsErr syntaxError),
                 onlineWorld\<lparr>requestCounts := [toLowerCase ctx \<mapsto> \<lparr>count = 1, resetTime = 60000\<rparr>],
                   log := [Fetched u]\<rparr>)"
    if "1 \<le> maxAttempts rcfg" for rcfg u ctx
    unfolding malformedJson_def
    by (simp add: fetchJson_quiet [OF that okr onlineWorld_fields(1,2)] onlineWorld_fields)
  have s: "onlineWorld\<lparr>store := emptyStore\<rparr> = onlineWorld"
    by (simp add: onlineWorld_def)
  have 1: "fst (searchLocations (quietEnv malformedJson) defaultConfig ''London'' onlineWorld)
     = Inl (JsErr syntaxError)"
    by (simp add: searchLocations_def q isValidQuery_def onlineWorld_fields emptyStore_misses s
          fj [OF retryConfigs_attempts(1)])
  have 2: "fst (getCurrentWeather (quietEnv malformedJson) defaultConfig (Num 40) (Num (- 74)) onlineWorld)
     = Inl (JsErr syntaxError)"
    by (simp add: getCurrentWeather_def currentWeatherValidated_def coordinates_40_74
          onlineWorld_fields emptyStore_misses s fj [OF retryConfigs_attempts(2)])
  have 3: "fst (getForecast (quietEnv malformedJson) defaultConfig (Num 40) (Num (- 74)) onlineWorld)
     = Inl (JsErr syntaxError)"
    by (simp add: getForecast_def forecastValidated_def coordinates_40_74
          onlineWorld_fields emptyStore_misses s fj [OF retryConfigs_attempts(2)])
  have 4: "fst (getCompleteWeatherData (quietEnv malformedJson) defaultConfig (Num 40) (Num (- 74)) onlineWorld)
     = Inl (JsErr syntaxError)"
    by (simp add: getCompleteWeatherData_def completeWeatherValidated_def coordinates_40_74
          onlineWorld_fields emptyStore_misses s fj [OF retryConfigs_attempts(2)])
  show ?thesis using 1 2 3 4 by simp
qed

subsection \<open>Validation of geocoding records\<close>

lemma isValidLocationResult_iff:
  "isValidLocationResult r \<longleftrightarrow>
     (\<exists>props i n c la lo.
        r = JObj props
        \<and> map_of props ''id'' = Some (JNum i)
        \<and> map_of props ''name'' = Some (JStr n) \<and> n \<noteq> []
        \<and> map_of props ''country'' = Some (JStr c) \<and> c \<noteq> []
        \<and> map_of props ''latitude'' = Some (JNum la)
        \<and> map_of props ''longitude'' = Some (JNum lo))"
proof (cases r)
  case (JObj props)
  have h: "hasProp props k \<longleftrightarrow> map_of props k \<noteq> None" for k
    by (simp add: hasProp_def map_of_eq_None_iff)
  show ?thesis
    unfolding JObj isValidLocationResult_def
    by (auto simp: h propOf_def getProp_def typeofNumber_def typeofString_def
          split: option.splits json.splits)
qed (simp_all add: isValidLocationResult_def)

lemma transformLocationResult_valid:
  assumes "isValidLocationResult r"
  shows "typeofNumber (locId (transformLocationResult r))
         \<and> (\<exists>s. locName (transformLocationResult r) = JStr s \<and> s \<noteq> [])
         \<and> (\<exists>s. locCountry (transformLocationResult r) = JStr s \<and> s \<noteq> [])
         \<and> typeofNumber (locLatitude (transformLocationResult r))
         \<and> typeofNumber (locLongitude (transformLocationResult r))"
proof -
  from assms obtain props i n c la lo where
    "r = JObj props" "map_of props ''id'' = Some (JNum i)"
    "map_of props ''name'' = Some (JStr n)" "n \<noteq> []"
    "map_of props ''country'' = Some (JStr c)" "c \<noteq> []"
    "map_of props ''latitude'' = Some (JNum la)" "map_of props ''longitude'' = Some (JNum lo)"
    unfolding isValidLocationResult_iff by blast
  then show ?thesis
    by (simp add: transformLocationResult_def propOf_def getProp_def typeofNumber_def)
qed

lemma validateAndTransformResults_valid:
  assumes "l \<in> set (validateAndTransformResults cfg rs)"
  shows "typeofNumber (locId l)
         \<and> (\<exists>s. locName l = JStr s \<and> s \<noteq> [])
         \<and> (\<exists>s. locCountry l = JStr s \<and> s \<noteq> [])
         \<and> typeofNumber (locLatitude l)
         \<and> typeofNumber (locLongitude l)"
proof -
  from assms obtain r where r: "r \<in> set (take (maxLocationResults cfg) (filter isValidLocationResult rs))"
    and l: "l = transformLocationResult r"
    by (auto simp: validateAndTransformResults_def)
  from r have "isValidLocationResult r"
    by (auto dest: in_set_takeD)
  then show ?thesis
    unfolding l by (rule transformLocationResult_valid)
qed

text \<open>
  Claim C3, as the specification states it, is false: \<^verbatim>\<open>isValidLocationResult\<close> tests
  the presence and the types of the fields and that name and country are not empty,
  and no range. A record with latitude 999 and longitude -500 is returned.
\<close>

theorem out_of_range_location_returned_counterexample:
  "fst (searchLocations (quietEnv outOfRangeResponse) defaultConfig ''test'' onlineWorld)
     = Inr [geoLocation (JNum (Num 7)) (JStr ''Nowhere'') (JStr ''Test'')
              (JNum (Num 999)) (JNum (Num (- 500)))]"
  unfolding outOfRangeResponse_def
  by (simp add: searchLocations_def sanitizeQuery_test isValidQuery_def onlineWorld_fields
        emptyStore_misses onlineWorld_store
        fetchJson_quiet_online [OF retryConfigs_attempts(1) ok_200]
        validateAndTransformResults_def defaultConfig_def evalGeo Let_def)

text \<open>
  Claim C3, amended. Every Location that \<^verbatim>\<open>searchLocations\<close> returns from a geocoding
  response (the cache missing) has a numeric id, a non-empty string name and country,
  and a numeric latitude and longitude, with no bound on the coordinates. Whenever the
  response carries an array of records, the call succeeds with the valid records, in
  order and cut to the configured maximum: a record that is invalid (a field missing or
  of the wrong type, name or country empty) is left out and nothing is raised.
\<close>

theorem searchLocations_results_validated:
  assumes miss: "fst (getCachedLocationSearch (sanitizeQuery query) (clock w) (store w)) = None"
  shows "(searchLocations e cfg query w = (Inr locs, w') \<longrightarrow>
            (\<forall>l \<in> set locs.
               typeofNumber (locId l)
               \<and> (\<exists>s. locName l = JStr s \<and> s \<noteq> [])
               \<and> (\<exists>s. locCountry l = JStr s \<and> s \<noteq> [])
               \<and> typeofNumber (locLatitude l)
               \<and> typeofNumber (locLongitude l))) \<and>
         (isValidQuery (sanitizeQuery query)
          \<and> fetchJson e locationRetryConfig (buildSearchUrl cfg (sanitizeQuery query))
                ''Location search''
                (w\<lparr>store := snd (getCachedLocationSearch (sanitizeQuery query) (clock w) (store w))\<rparr>)
              = (Inr d, w2)
          \<and> getProp d ''results'' = Inr (JArr rs) \<longrightarrow>
            fst (searchLocations e cfg query w)
              = Inr (map transformLocationResult
                       (take (maxLocationResults cfg) (filter isValidLocationResult rs))))"
proof -
  obtain st1 where g: "getCachedLocationSearch (sanitizeQuery query) (clock w) (store w) = (None, st1)"
    using miss by (cases "getCachedLocationSearch (sanitizeQuery query) (clock w) (store w)") simp
  have 1: "\<forall>l \<in> set locs.
               typeofNumber (locId l)
               \<and> (\<exists>s. locName l = JStr s \<and> s \<noteq> [])
               \<and> (\<exists>s. locCountry l = JStr s \<and> s \<noteq> [])
               \<and> typeofNumber (locLatitude l)
               \<and> typeofNumber (locLongitude l)"
    if "searchLocations e cfg query w = (Inr locs, w')"
  proof -
    from that have "locs = [] \<or> (\<exists>rs. locs = validateAndTransformResults cfg rs)"
      by (auto simp: searchLocations_def Let_def g
               split: if_splits prod.splits sum.splits json.splits)
    then show ?thesis
      using validateAndTransformResults_valid by auto
  qed
  have 2: "fst (searchLocations e cfg query w)
              = Inr (map transformLocationResult
                       (take (maxLocationResults cfg) (filter isValidLocationResult rs)))"
    if "isValidQuery (sanitizeQuery query)"
       "fetchJson e locationRetryConfig (buildSearchUrl cfg (sanitizeQuery query))
                ''Location search''
                (w\<lparr>store := snd (getCachedLocationSearch (sanitizeQuery query) (clock w) (store w))\<rparr>)
              = (Inr d, w2)"
       "getProp d ''results'' = Inr (JArr rs)"
    using that by (simp add: searchLocations_def Let_def g validateAndTransformResults_def)
  show ?thesis using 1 2 by blast
qed


theorem searchLocations_results_validated_witness:
  "fst (searchLocations (quietEnv mixedResponse) defaultConfig ''test'' onlineWorld)
     = Inr [geoLocation (JNum (Num 1)) (JStr ''London'') (JStr ''United Kingdom'')
              (JNum (Num 51)) (JNum (Num 0)),
            geoLocation (JNum (Num 5)) (JStr ''Paris'') (JStr ''France'')
              (JNum (Num 48)) (JNum (Num 2))] \<and>
   list_all (\<lambda>l. typeofNumber (locId l) \<and> typeofNumber (locLatitude l)
                   \<and> typeofNumber (locLongitude l))
     [geoLocation (JNum (Num 1)) (JStr ''London'') (JStr ''United Kingdom'')
        (JNum (Num 51)) (JNum (Num 0)),
      geoLocation (JNum (Num 5)) (JStr ''Paris'') (JStr ''France'')
        (JNum (Num 48)) (JNum (Num 2))]"
proof -
  define w2 where "w2 = onlineWorld\<lparr>requestCounts := [toLowerCase ''Location search'' \<mapsto> \<lparr>count = 1, resetTime = 60000\<rparr>],
                       log := [Fetched (buildSearchUrl defaultConfig ''test'')]\<rparr>"
  define locs where "locs = [geoLocation (JNum (Num 1)) (JStr ''London'') (JStr ''United Kingdom'')
                      (JNum (Num 51)) (JNum (Num 0)),
                    geoLocation (JNum (Num 5)) (JStr ''Paris'') (JStr ''France'')
                      (JNum (Num 48)) (JNum (Num 2))]"
  have miss: "fst (getCachedLocationSearch (sanitizeQuery ''test'') (clock onlineWorld) (store onlineWorld)) = None"
    by (simp add: onlineWorld_fields emptyStore_misses)
  have valid: "isValidQuery (sanitizeQuery ''test'')"
    by (simp add: sanitizeQuery_test isValidQuery_def)
  have fj: "fetchJson (quietEnv mixedResponse) locationRetryConfig
              (buildSearchUrl defaultConfig (sanitizeQuery ''test'')) ''Location search''
              (onlineWorld\<lparr>store := snd (getCachedLocationSearch (sanitizeQuery ''test'')
                                             (clock onlineWorld) (store onlineWorld))\<rparr>)
            = (Inr (JObj [(''results'', JArr mixedResults)]), w2)"
    unfolding mixedResponse_def w2_def
    by (simp add: onlineWorld_fields emptyStore_misses onlineWorld_store sanitizeQuery_test
          fetchJson_quiet_online [OF retryConfigs_attempts(1) ok_200])
  have gp: "getProp (JObj [(''results'', JArr mixedResults)]) ''results'' = Inr (JArr mixedResults)"
    by (simp add: getProp_def)
  have filtered: "map transformLocationResult
                    (take (maxLocationResults defaultConfig) (filter isValidLocationResult mixedResults))
                  = locs"
    by (simp add: mixedResults_def locs_def defaultConfig_def evalGeo)
  have run: "searchLocations (quietEnv mixedResponse) defaultConfig ''test'' onlineWorld
               = (Inr locs, w2\<lparr>store := cacheLocationSearch ''test'' locs (clock w2) (store w2)\<rparr>)"
    using fj gp filtered
    by (simp add: searchLocations_def sanitizeQuery_test isValidQuery_def onlineWorld_fields
          emptyStore_misses onlineWorld_store validateAndTransformResults_def)
  show ?thesis
    using searchLocations_results_validated
            [OF miss, of "quietEnv mixedResponse" defaultConfig locs
               "w2\<lparr>store := cacheLocationSearch ''test'' locs (clock w2) (store w2)\<rparr>"
               "JObj [(''results'', JArr mixedResults)]" w2 mixedResults]
          run valid fj gp filtered
    unfolding locs_def [symmetric] by (simp add: list_all_iff)
qed

subsection \<open>Caching of weather data\<close>

lemma cacheWeatherData_lookup:
  assumes "acceptsWrites st"
  shows "objGet (getWeatherCache (cacheWeatherData cfg lat lon cur fc now st)) (getWeatherCacheKey lat lon)
           = Some \<lparr>data = \<lparr>current = cur, forecast = fc\<rparr>, timestamp = now,
                    expiresAt = now + WEATHER_CACHE_DURATION cfg\<rparr>"
  using assms
  by (simp add: cacheWeatherData_def setWeatherItem_def getWeatherCache_def objGet_objSet Let_def)

lemma transform_currentJson:
  "transformCurrentWeatherData (quietEnv r) 0 currentJson = currentData"
  by (simp add: transformCurrentWeatherData_def currentJson_def currentData_def propOf_def
        getProp_def parseTimestamp_def quietEnv_def)

lemma transform_dailyJson:
  "transformForecastData (quietEnv r) 0 dailyJson = Inr forecastData"
  by (simp add: transformForecastData_def dailyJson_def forecastData_def propOf_def getProp_def
        forecastDay_def elemAt_def parseTimestamp_def quietEnv_def)

lemma truthy_weather_json: "truthy currentJson" "truthy dailyJson"
  by (simp_all add: currentJson_def dailyJson_def)

lemma key_40_74: "getWeatherCacheKey (Num 40) (Num (- 74)) = ''40,-74''"
  by (simp add: evalKey)

lemma weather_fetched:
  "fetchJson (quietEnv (Inr \<lparr>status = 200, body = Inr d\<rparr>)) weatherRetryConfig u ctx onlineWorld
     = (Inr d, onlineWorld\<lparr>requestCounts := [toLowerCase ctx \<mapsto> \<lparr>count = 1, resetTime = 60000\<rparr>],
                 log := [Fetched u]\<rparr>)"
  by (rule fetchJson_quiet_online [OF retryConfigs_attempts(2) ok_200])

text \<open>
  Claim C2, as the specification states it, is false. \<^verbatim>\<open>getCurrentWeather\<close> writes the
  cache only inside \<^verbatim>\<open>if (data.daily)\<close> and \<^verbatim>\<open>getForecast\<close> only inside
  \<^verbatim>\<open>if (data.current)\<close>. A response to the request for the current fields that holds
  the current weather alone is returned and nothing is written; likewise for a forecast
  alone.
\<close>

theorem requested_part_alone_not_cached_counterexample:
  "fst (getCurrentWeather (quietEnv currentOnlyResponse) defaultConfig (Num 40) (Num (- 74)) onlineWorld)
     = Inr currentData \<and>
   store (snd (getCurrentWeather (quietEnv currentOnlyResponse) defaultConfig (Num 40) (Num (- 74))
                 onlineWorld)) = emptyStore \<and>
   fst (getForecast (quietEnv dailyOnlyResponse) defaultConfig (Num 40) (Num (- 74)) onlineWorld)
     = Inr forecastData \<and>
   store (snd (getForecast (quietEnv dailyOnlyResponse) defaultConfig (Num 40) (Num (- 74))
                 onlineWorld)) = emptyStore"
proof -
  have 1: "getCurrentWeather (quietEnv currentOnlyResponse) defaultConfig (Num 40) (Num (- 74)) onlineWorld
             = (Inr currentData,
                onlineWorld\<lparr>requestCounts := [toLowerCase ''Weather'' \<mapsto> \<lparr>count = 1, resetTime = 60000\<rparr>],
                  log := [Fetched (buildCurrentWeatherUrl defaultConfig (Num 40) (Num (- 74)))]\<rparr>)"
    unfolding currentOnlyResponse_def
    by (simp add: getCurrentWeather_def currentWeatherValidated_def coordinates_40_74
          onlineWorld_fields emptyStore_misses onlineWorld_store weather_fetched
          getProp_def propOf_def truthy_weather_json transform_currentJson)
  have 2: "getForecast (quietEnv dailyOnlyResponse) defaultConfig (Num 40) (Num (- 74)) onlineWorld
             = (Inr forecastData,
                onlineWorld\<lparr>requestCounts := [toLowerCase ''Weather forecast'' \<mapsto> \<lparr>count = 1, resetTime = 60000\<rparr>],
                  log := [Fetched (buildForecastUrl defaultConfig (Num 40) (Num (- 74)))]\<rparr>)"
    unfolding dailyOnlyResponse_def
    by (simp add: getForecast_def forecastValidated_def coordinates_40_74
          onlineWorld_fields emptyStore_misses onlineWorld_store weather_fetched
          getProp_def propOf_def truthy_weather_json transform_dailyJson)
  show ?thesis
    by (simp add: 1 2 onlineWorld_fields)
qed

text \<open>
  Claim C2, amended. On a cache miss, a successful \<^verbatim>\<open>getCurrentWeather\<close> or
  \<^verbatim>\<open>getForecast\<close> writes the weather cache exactly when the response holds both
  \<^verbatim>\<open>current\<close> and \<^verbatim>\<open>daily\<close>: both are then cached together; when the response holds
  the requested part alone, the part is returned and the store is left as it is. A
  successful \<^verbatim>\<open>getCompleteWeatherData\<close> always caches both. What is cached is found
  under the key of the coordinates rounded to two decimals (the store accepting the
  write).
\<close>

theorem weather_cached_when_both_parts_present:
  assumes valid: "validateCoordinates (JNum lat) (JNum lon) = None"
    and miss: "getCachedWeatherData lat lon (clock w) (store w) = (None, st1)"
  shows
    "(fetchJson e weatherRetryConfig (buildCurrentWeatherUrl cfg lat lon) ''Weather''
          (w\<lparr>store := st1\<rparr>) = (Inr d, w2)
      \<and> getProp d ''current'' = Inr cur \<and> truthy cur \<longrightarrow>
        (\<not> truthy (propOf d ''daily'') \<longrightarrow>
           getCurrentWeather e cfg lat lon w
             = (Inr (transformCurrentWeatherData e (clock w2) cur), w2)) \<and>
        (truthy (propOf d ''daily'')
         \<and> transformForecastData e (clock w2) (propOf d ''daily'') = Inr fc \<longrightarrow>
           getCurrentWeather e cfg lat lon w
             = (Inr (transformCurrentWeatherData e (clock w2) cur),
                w2\<lparr>store := cacheWeatherData cfg lat lon
                                (transformCurrentWeatherData e (clock w2) cur) fc
                                (clock w2) (store w2)\<rparr>))) \<and>
     (fetchJson e weatherRetryConfig (buildForecastUrl cfg lat lon) ''Weather forecast''
          (w\<lparr>store := st1\<rparr>) = (Inr d, w2)
      \<and> getProp d ''daily'' = Inr daily \<and> truthy daily
      \<and> transformForecastData e (clock w2) daily = Inr fc \<longrightarrow>
        (\<not> truthy (propOf d ''current'') \<longrightarrow>
           getForecast e cfg lat lon w = (Inr fc, w2)) \<and>
        (truthy (propOf d ''current'') \<longrightarrow>
           getForecast e cfg lat lon w
             = (Inr fc,
                w2\<lparr>store := cacheWeatherData cfg lat lon
                                (transformCurrentWeatherData e (clock w2) (propOf d ''current'')) fc
                                (clock w2) (store w2)\<rparr>))) \<and>
     (fetchJson e weatherRetryConfig (buildCompleteWeatherUrl cfg lat lon) ''Complete weather''
          (w\<lparr>store := st1\<rparr>) = (Inr d, w2)
      \<and> getProp d ''current'' = Inr cur \<and> truthy cur \<and> truthy (propOf d ''daily'')
      \<and> transformForecastData e (clock w2) (propOf d ''daily'') = Inr fc \<longrightarrow>
        getCompleteWeatherData e cfg lat lon w
          = (Inr \<lparr>current = transformCurrentWeatherData e (clock w2) cur, forecast = fc\<rparr>,
             w2\<lparr>store := cacheWeatherData cfg lat lon
                             (transformCurrentWeatherData e (clock w2) cur) fc
                             (clock w2) (store w2)\<rparr>)) \<and>
     (acceptsWrites st \<longrightarrow>
        objGet (getWeatherCache (cacheWeatherData cfg lat lon c f now st)) (getWeatherCacheKey lat lon)
          = Some \<lparr>data = \<lparr>current = c, forecast = f\<rparr>, timestamp = now,
                   expiresAt = now + WEATHER_CACHE_DURATION cfg\<rparr>)"
proof -
  have 1: "getCurrentWeather e cfg lat lon w
             = (Inr (transformCurrentWeatherData e (clock w2) cur), w2)"
    if "fetchJson e weatherRetryConfig (buildCurrentWeatherUrl cfg lat lon) ''Weather''
          (w\<lparr>store := st1\<rparr>) = (Inr d, w2)"
       "getProp d ''current'' = Inr cur" "truthy cur" "\<not> truthy (propOf d ''daily'')"
    using that by (simp add: getCurrentWeather_def currentWeatherValidated_def valid miss Let_def)
  have 2: "getCurrentWeather e cfg lat lon w
             = (Inr (transformCurrentWeatherData e (clock w2) cur),
                w2\<lparr>store := cacheWeatherData cfg lat lon
                                (transformCurrentWeatherData e (clock w2) cur) fc
                                (clock w2) (store w2)\<rparr>)"
    if "fetchJson e weatherRetryConfig (buildCurrentWeatherUrl cfg lat lon) ''Weather''
          (w\<lparr>store := st1\<rparr>) = (Inr d, w2)"
       "getProp d ''current'' = Inr cur" "truthy cur" "truthy (propOf d ''daily'')"
       "transformForecastData e (clock w2) (propOf d ''daily'') = Inr fc"
    using that by (simp add: getCurrentWeather_def currentWeatherValidated_def valid miss Let_def)
  have 3: "getForecast e cfg lat lon w = (Inr fc, w2)"
    if "fetchJson e weatherRetryConfig (buildForecastUrl cfg lat lon) ''Weather forecast''
          (w\<lparr>store := st1\<rparr>) = (Inr d, w2)"
       "getProp d ''daily'' = Inr daily" "truthy daily"
       "transformForecastData e (clock w2) daily = Inr fc" "\<not> truthy (propOf d ''current'')"
    using that by (simp add: getForecast_def forecastValidated_def valid miss Let_def)
  have 4: "getForecast e cfg lat lon w
             = (Inr fc,
                w2\<lparr>store := cacheWeatherData cfg lat lon
                                (transformCurrentWeatherData e (clock w2) (propOf d ''current'')) fc
                                (clock w2) (store w2)\<rparr>)"
    if "fetchJson e weatherRetryConfig (buildForecastUrl cfg lat lon) ''Weather forecast''
          (w\<lparr>store := st1\<rparr>) = (Inr d, w2)"
       "getProp d ''daily'' = Inr daily" "truthy daily"
       "transformForecastData e (clock w2) daily = Inr fc" "truthy (propOf d ''current'')"
    using that by (simp add: getForecast_def forecastValidated_def valid miss Let_def)
  have 5: "getCompleteWeatherData e cfg lat lon w
          = (Inr \<lparr>current = transformCurrentWeatherData e (clock w2) cur, forecast = fc\<rparr>,
             w2\<lparr>store := cacheWeatherData cfg lat lon
                             (transformCurrentWeatherData e (clock w2) cur) fc
                             (clock w2) (store w2)\<rparr>)"
    if "fetchJson e weatherRetryConfig (buildCompleteWeatherUrl cfg lat lon) ''Complete weather''
          (w\<lparr>store := st1\<rparr>) = (Inr d, w2)"
       "getProp d ''current'' = Inr cur" "truthy cur" "truthy (propOf d ''daily'')"
       "transformForecastData e (clock w2) (propOf d ''daily'') = Inr fc"
    using that
    by (simp add: getCompleteWeatherData_def completeWeatherValidated_def valid miss Let_def)
  show ?thesis
    using 1 2 3 4 5 cacheWeatherData_lookup [of st cfg lat lon c f now] by blast
qed


theorem weather_cached_when_both_parts_present_witness:
  "fst (getCurrentWeather (quietEnv bothResponse) defaultConfig (Num 40) (Num (- 74)) onlineWorld)
     = Inr currentData \<and>
   objGet (getWeatherCache
             (store (snd (getCurrentWeather (quietEnv bothResponse) defaultConfig (Num 40) (Num (- 74))
                            onlineWorld)))) ''40,-74''
     = Some \<lparr>data = \<lparr>current = currentData, forecast = forecastData\<rparr>, timestamp = 0,
              expiresAt = 600000\<rparr> \<and>
   getCurrentWeather (quietEnv currentOnlyResponse) defaultConfig (Num 40) (Num (- 74)) onlineWorld
     = (Inr currentData,
        onlineWorld\<lparr>requestCounts := [toLowerCase ''Weather'' \<mapsto> \<lparr>count = 1, resetTime = 60000\<rparr>],
          log := [Fetched (buildCurrentWeatherUrl defaultConfig (Num 40) (Num (- 74)))]\<rparr>)"
proof -
  define w2 where "w2 = onlineWorld\<lparr>requestCounts := [toLowerCase ''Weather'' \<mapsto> \<lparr>count = 1, resetTime = 60000\<rparr>],
          log := [Fetched (buildCurrentWeatherUrl defaultConfig (Num 40) (Num (- 74)))]\<rparr>"
  define both where "both = JObj [(''current'', currentJson), (''daily'', dailyJson)]"
  define only where "only = JObj [(''current'', currentJson)]"
  have w2: "clock w2 = 0" "store w2 = emptyStore"
    by (simp_all add: w2_def onlineWorld_fields)
  have miss: "getCachedWeatherData (Num 40) (Num (- 74)) (clock onlineWorld) (store onlineWorld)
                = (None, emptyStore)"
    by (simp add: onlineWorld_fields emptyStore_misses)
  have f1: "fetchJson (quietEnv bothResponse) weatherRetryConfig
              (buildCurrentWeatherUrl defaultConfig (Num 40) (Num (- 74))) ''Weather''
              (onlineWorld\<lparr>store := emptyStore\<rparr>) = (Inr both, w2)"
    unfolding bothResponse_def both_def w2_def by (simp add: onlineWorld_store weather_fetched)
  have f2: "fetchJson (quietEnv currentOnlyResponse) weatherRetryConfig
              (buildCurrentWeatherUrl defaultConfig (Num 40) (Num (- 74))) ''Weather''
              (onlineWorld\<lparr>store := emptyStore\<rparr>) = (Inr only, w2)"
    unfolding currentOnlyResponse_def only_def w2_def by (simp add: onlineWorld_store weather_fetched)
  have p: "getProp both ''current'' = Inr currentJson" "propOf both ''daily'' = dailyJson"
    "getProp only ''current'' = Inr currentJson" "propOf only ''daily'' = JUndefined"
    by (simp_all add: both_def only_def getProp_def propOf_def)
  have d: "WEATHER_CACHE_DURATION defaultConfig = 600000"
    by (simp add: WEATHER_CACHE_DURATION_def defaultConfig_def)
  have a: "getCurrentWeather (quietEnv bothResponse) defaultConfig (Num 40) (Num (- 74)) onlineWorld
             = (Inr currentData,
                w2\<lparr>store := cacheWeatherData defaultConfig (Num 40) (Num (- 74)) currentData
                                forecastData 0 emptyStore\<rparr>)"
    using weather_cached_when_both_parts_present
            [OF coordinates_40_74 miss,
             where e = "quietEnv bothResponse" and cfg = defaultConfig and d = both and ?w2.0 = w2
               and cur = currentJson and fc = forecastData]
          f1 p truthy_weather_json
    by (simp add: w2 transform_currentJson transform_dailyJson)
  have b: "getCurrentWeather (quietEnv currentOnlyResponse) defaultConfig (Num 40) (Num (- 74)) onlineWorld
             = (Inr currentData, w2)"
    using weather_cached_when_both_parts_present
            [OF coordinates_40_74 miss,
             where e = "quietEnv currentOnlyResponse" and cfg = defaultConfig and d = only
               and ?w2.0 = w2 and cur = currentJson]
          f2 p truthy_weather_json
    by (simp add: w2 transform_currentJson)
  have c: "objGet (getWeatherCache (cacheWeatherData defaultConfig (Num 40) (Num (- 74)) currentData
                                      forecastData 0 emptyStore)) ''40,-74''
             = Some \<lparr>data = \<lparr>current = currentData, forecast = forecastData\<rparr>, timestamp = 0,
                      expiresAt = 600000\<rparr>"
    using weather_cached_when_both_parts_present
            [OF coordinates_40_74 miss,
             where st = emptyStore and cfg = defaultConfig and c = currentData and f = forecastData
               and now = 0]
    by (simp add: emptyStore_caches key_40_74 d)
  show ?thesis
    unfolding a b by (simp add: c w2_def)
qed

subsection \<open>Cache keys of the location search\<close>

lemma searchLocations_hit:
  assumes "isValidQuery (sanitizeQuery query)"
    and "objGet (getLocationCache (store w)) (normalizeQuery (sanitizeQuery query)) = Some entry"
    and "clock w \<le> expiresAt entry"
  shows "searchLocations e cfg query w = (Inr (data entry), w)"
  using assms by (simp add: searchLocations_def getCachedLocationSearch_def Let_def)

lemma cacheLocationSearch_written:
  assumes "acceptsWrites st"
  shows "locationItem (cacheLocationSearch query locations now st)
           = Item (limitCacheSize
                     (objSet (normalizeQuery query)
                        \<lparr>data = locations, timestamp = now, expiresAt = now + LOCATION_CACHE_DURATION\<rparr>
                        (getLocationCache st))
                     MAX_LOCATION_CACHE_SIZE)"
  using assms by (simp add: cacheLocationSearch_def setLocationItem_def Let_def)

lemma three_queries_key:
  "normalizeQuery (sanitizeQuery ''  New York  '') = ''new york''"
  "normalizeQuery (sanitizeQuery ''NEW YORK'') = ''new york''"
  "normalizeQuery (sanitizeQuery ''new    york'') = ''new york''"
  by (simp_all add: sanitizeQuery_def evalString)

lemma three_queries_valid:
  "isValidQuery (sanitizeQuery ''  New York  '')"
  "isValidQuery (sanitizeQuery ''NEW YORK'')"
  "isValidQuery (sanitizeQuery ''new    york'')"
  by (simp_all add: sanitizeQuery_def isValidQuery_def trim_def isWhiteSpace_def)

text \<open>
  Claim C9. The three queries "  New York  ", "NEW YORK" and "new    york" have the
  cache key "new york". For every valid query the key that \<^verbatim>\<open>searchLocations\<close>
  reads and writes is the sanitized query lowercased, trimmed and with its runs of
  white space collapsed: a fresh entry under that key is returned without a request, and
  after a request the results are stored under that key (the store accepting the write).
\<close>

theorem queries_share_normalized_cache_key:
  "(query \<in> {''  New York  '', ''NEW YORK'', ''new    york''} \<longrightarrow>
      normalizeQuery (sanitizeQuery query) = ''new york'' \<and> isValidQuery (sanitizeQuery query)) \<and>
   (isValidQuery (sanitizeQuery query)
    \<and> objGet (getLocationCache (store w)) (normalizeQuery (sanitizeQuery query)) = Some entry
    \<and> clock w \<le> expiresAt entry \<longrightarrow>
      searchLocations e cfg query w = (Inr (data entry), w)) \<and>
   (isValidQuery (sanitizeQuery query)
    \<and> fst (getCachedLocationSearch (sanitizeQuery query) (clock w) (store w)) = None
    \<and> fetchJson e locationRetryConfig (buildSearchUrl cfg (sanitizeQuery query))
          ''Location search''
          (w\<lparr>store := snd (getCachedLocationSearch (sanitizeQuery query) (clock w) (store w))\<rparr>)
        = (Inr d, w2)
    \<and> getProp d ''results'' = Inr (JArr rs) \<and> acceptsWrites (store w2) \<longrightarrow>
      locationItem (store (snd (searchLocations e cfg query w)))
        = Item (limitCacheSize
                  (objSet (normalizeQuery (sanitizeQuery query))
                     \<lparr>data = validateAndTransformResults cfg rs, timestamp = clock w2,
                      expiresAt = clock w2 + LOCATION_CACHE_DURATION\<rparr>
                     (getLocationCache (store w2)))
                  MAX_LOCATION_CACHE_SIZE))"
proof -
  have 1: "normalizeQuery (sanitizeQuery query) = ''new york'' \<and> isValidQuery (sanitizeQuery query)"
    if "query \<in> {''  New York  '', ''NEW YORK'', ''new    york''}"
    using that three_queries_key three_queries_valid by auto
  have 3: "locationItem (store (snd (searchLocations e cfg query w)))
        = Item (limitCacheSize
                  (objSet (normalizeQuery (sanitizeQuery query))
                     \<lparr>data = validateAndTransformResults cfg rs, timestamp = clock w2,
                      expiresAt = clock w2 + LOCATION_CACHE_DURATION\<rparr>
                     (getLocationCache (store w2)))
                  MAX_LOCATION_CACHE_SIZE)"
    if v: "isValidQuery (sanitizeQuery query)"
       and m: "fst (getCachedLocationSearch (sanitizeQuery query) (clock w) (store w)) = None"
       and f: "fetchJson e locationRetryConfig (buildSearchUrl cfg (sanitizeQuery query))
          ''Location search''
          (w\<lparr>store := snd (getCachedLocationSearch (sanitizeQuery query) (clock w) (store w))\<rparr>)
        = (Inr d, w2)"
       and r: "getProp d ''results'' = Inr (JArr rs)" and a: "acceptsWrites (store w2)"
  proof -
    obtain st1 where g: "getCachedLocationSearch (sanitizeQuery query) (clock w) (store w) = (None, st1)"
      using m by (cases "getCachedLocationSearch (sanitizeQuery query) (clock w) (store w)") simp
    show ?thesis
      using v f r a by (simp add: searchLocations_def Let_def g cacheLocationSearch_written)
  qed
  show ?thesis
    using 1 3 searchLocations_hit [of query w entry e cfg] by blast
qed


theorem queries_share_normalized_cache_key_witness:
  "searchLocations (quietEnv fetchFailure) defaultConfig ''  New York  '' cachedWorld
     = (Inr [newYorkLocation], cachedWorld) \<and>
   searchLocations (quietEnv fetchFailure) defaultConfig ''NEW YORK'' cachedWorld
     = (Inr [newYorkLocation], cachedWorld) \<and>
   searchLocations (quietEnv fetchFailure) defaultConfig ''new    york'' cachedWorld
     = (Inr [newYorkLocation], cachedWorld) \<and>
   locationItem (store (snd (searchLocations (quietEnv mixedResponse) defaultConfig ''NEW YORK''
                               onlineWorld)))
     = Item [(''new york'',
              \<lparr>data = validateAndTransformResults defaultConfig mixedResults, timestamp = 0,
               expiresAt = 86400000\<rparr>)]"
proof -
  define entry where "entry = \<lparr>data = [newYorkLocation], timestamp = 0, expiresAt = 86400000\<rparr>"
  have c: "objGet (getLocationCache (store cachedWorld)) ''new york'' = Some entry"
    "clock cachedWorld \<le> expiresAt entry" "data entry = [newYorkLocation]"
    by (simp_all add: cachedWorld_def getLocationCache_def objGet_def entry_def)
  have hit: "searchLocations (quietEnv fetchFailure) defaultConfig q cachedWorld
               = (Inr [newYorkLocation], cachedWorld)"
    if "q \<in> {''  New York  '', ''NEW YORK'', ''new    york''}" for q
    using queries_share_normalized_cache_key
            [where query = q and w = cachedWorld and entry = entry
               and e = "quietEnv fetchFailure" and cfg = defaultConfig]
          that c
    by auto
  define w2 where "w2 = onlineWorld\<lparr>requestCounts := [toLowerCase ''Location search'' \<mapsto> \<lparr>count = 1, resetTime = 60000\<rparr>],
                       log := [Fetched (buildSearchUrl defaultConfig ''NEW YORK'')]\<rparr>"
  have s: "sanitizeQuery ''NEW YORK'' = ''NEW YORK''"
    by (simp add: sanitizeQuery_def trim_def isWhiteSpace_def)
  have w2: "clock w2 = 0" "store w2 = emptyStore"
    by (simp_all add: w2_def onlineWorld_fields)
  have fj: "fetchJson (quietEnv mixedResponse) locationRetryConfig
              (buildSearchUrl defaultConfig (sanitizeQuery ''NEW YORK'')) ''Location search''
              (onlineWorld\<lparr>store := snd (getCachedLocationSearch (sanitizeQuery ''NEW YORK'')
                                             (clock onlineWorld) (store onlineWorld))\<rparr>)
            = (Inr (JObj [(''results'', JArr mixedResults)]), w2)"
    unfolding mixedResponse_def w2_def
    by (simp add: onlineWorld_fields emptyStore_misses onlineWorld_store s
          fetchJson_quiet_online [OF retryConfigs_attempts(1) ok_200])
  have gp: "getProp (JObj [(''results'', JArr mixedResults)]) ''results'' = Inr (JArr mixedResults)"
    by (simp add: getProp_def)
  have miss: "fst (getCachedLocationSearch (sanitizeQuery ''NEW YORK'') (clock onlineWorld)
                     (store onlineWorld)) = None"
    by (simp add: onlineWorld_fields emptyStore_misses)
  have written: "locationItem (store (snd (searchLocations (quietEnv mixedResponse) defaultConfig
                                             ''NEW YORK'' onlineWorld)))
     = Item [(''new york'',
              \<lparr>data = validateAndTransformResults defaultConfig mixedResults, timestamp = 0,
               expiresAt = 86400000\<rparr>)]"
    using queries_share_normalized_cache_key
            [where query = "''NEW YORK''" and w = onlineWorld and e = "quietEnv mixedResponse"
               and cfg = defaultConfig and d = "JObj [(''results'', JArr mixedResults)]"
               and ?w2.0 = w2 and rs = mixedResults]
          fj gp miss three_queries_valid(2) three_queries_key(2)
    by (simp add: w2 emptyStore_caches objSet_def arrayIndex_def isDigit_def limitCacheSize_def
          MAX_LOCATION_CACHE_SIZE_def LOCATION_CACHE_DURATION_def)
  show ?thesis
    using hit written by simp
qed

subsection \<open>Validation of coordinates\<close>

text \<open>
  Claim C10, as it is stated, is false: it is enough for one coordinate to be \<open>NaN\<close>
  for the claim to promise that no validation error is raised, but the other coordinate
  is still compared with its bounds; and the key is "NaN,NaN" only when both
  coordinates are \<open>NaN\<close>.
\<close>

theorem nan_with_bad_longitude_rejected_counterexample:
  "getCurrentWeather (quietEnv bothResponse) defaultConfig NaN (Num 200) onlineWorld
     = (Inl (AppErr (createAppError User ''Longitude must be between -180 and 180 degrees''
                       False None)), onlineWorld) \<and>
   getForecast (quietEnv bothResponse) defaultConfig (Num 100) NaN onlineWorld
     = (Inl (AppErr (createAppError User ''Latitude must be between -90 and 90 degrees''
                       False None)), onlineWorld) \<and>
   getWeatherCacheKey NaN (Num 0) = ''NaN,0''"
  by (simp add: getCurrentWeather_def getForecast_def validateCoordinates_def numGreater_def evalKey)

lemma validateCoordinates_nan_or_in_range:
  assumes "lat = NaN \<or> (\<exists>r. lat = Num r \<and> - 90 \<le> r \<and> r \<le> 90)"
    and "lon = NaN \<or> (\<exists>r. lon = Num r \<and> - 180 \<le> r \<and> r \<le> 180)"
  shows "validateCoordinates (JNum lat) (JNum lon) = None"
  using assms by (auto simp: validateCoordinates_def numGreater_def)

text \<open>
  Claim C10, amended. A \<open>NaN\<close> coordinate passes the validation: when each coordinate
  is \<open>NaN\<close> or within its range, \<^verbatim>\<open>validateCoordinates\<close> raises nothing and each of
  the three accessors goes on to the cache and the network. In the cache key a \<open>NaN\<close>
  coordinate reads "NaN", so that the key of two \<open>NaN\<close> coordinates is "NaN,NaN"; a
  fresh entry under the key is returned as for any other coordinates.
\<close>

theorem nan_coordinates_pass_validation:
  assumes lat: "lat = NaN \<or> (\<exists>r. lat = Num r \<and> - 90 \<le> r \<and> r \<le> 90)"
    and lon: "lon = NaN \<or> (\<exists>r. lon = Num r \<and> - 180 \<le> r \<and> r \<le> 180)"
  shows "validateCoordinates (JNum lat) (JNum lon) = None \<and>
         getCurrentWeather e cfg lat lon w = currentWeatherValidated e cfg lat lon w \<and>
         getForecast e cfg lat lon w = forecastValidated e cfg lat lon w \<and>
         getCompleteWeatherData e cfg lat lon w = completeWeatherValidated e cfg lat lon w \<and>
         getWeatherCacheKey lat lon
           = (if lat = NaN then ''NaN'' else showHundredths (roundHundredths lat)) @ '',''
             @ (if lon = NaN then ''NaN'' else showHundredths (roundHundredths lon)) \<and>
         (objGet (getWeatherCache (store w)) (getWeatherCacheKey lat lon) = Some entry
          \<and> clock w \<le> expiresAt entry \<longrightarrow>
            getCurrentWeather e cfg lat lon w = (Inr (current (data entry)), w)
            \<and> getForecast e cfg lat lon w = (Inr (forecast (data entry)), w)
            \<and> getCompleteWeatherData e cfg lat lon w = (Inr (data entry), w))"
proof -
  have v: "validateCoordinates (JNum lat) (JNum lon) = None"
    using lat lon by (rule validateCoordinates_nan_or_in_range)
  have k: "getWeatherCacheKey lat lon
           = (if lat = NaN then ''NaN'' else showHundredths (roundHundredths lat)) @ '',''
             @ (if lon = NaN then ''NaN'' else showHundredths (roundHundredths lon))"
    by (simp add: getWeatherCacheKey_def roundHundredths_def showHundredths_def Let_def)
  have h: "getCurrentWeather e cfg lat lon w = (Inr (current (data entry)), w)
            \<and> getForecast e cfg lat lon w = (Inr (forecast (data entry)), w)
            \<and> getCompleteWeatherData e cfg lat lon w = (Inr (data entry), w)"
    if "objGet (getWeatherCache (store w)) (getWeatherCacheKey lat lon) = Some entry"
      and "clock w \<le> expiresAt entry"
    using that
    by (simp add: getCurrentWeather_def getForecast_def getCompleteWeatherData_def v
          currentWeatherValidated_def forecastValidated_def completeWeatherValidated_def
          getCachedWeatherData_def Let_def)
  show ?thesis
    using v k h
    by (simp add: getCurrentWeather_def getForecast_def getCompleteWeatherData_def)
qed

theorem nan_coordinates_pass_validation_witness:
  "validateCoordinates (JNum NaN) (JNum NaN) = None \<and>
   getWeatherCacheKey NaN NaN = ''NaN,NaN'' \<and>
   getCurrentWeather (quietEnv fetchFailure) defaultConfig NaN NaN cachedWorld
     = (Inr sampleCurrent, cachedWorld) \<and>
   getCurrentWeather (quietEnv bothResponse) defaultConfig NaN (Num 10) onlineWorld
     = currentWeatherValidated (quietEnv bothResponse) defaultConfig NaN (Num 10) onlineWorld"
proof -
  define entry where "entry = \<lparr>data = \<lparr>current = sampleCurrent, forecast = []\<rparr>, timestamp = 0,
                    expiresAt = 600000\<rparr>"
  have c: "objGet (getWeatherCache (store cachedWorld)) ''NaN,NaN'' = Some entry"
    "clock cachedWorld \<le> expiresAt entry" "current (data entry) = sampleCurrent"
    by (simp_all add: cachedWorld_def getWeatherCache_def objGet_def entry_def)
  have r: "(10::real) \<le> 180" "- 180 \<le> (10::real)"
    by simp_all
  show ?thesis
    using nan_coordinates_pass_validation
            [where lat = NaN and lon = NaN and w = cachedWorld and entry = entry
               and e = "quietEnv fetchFailure" and cfg = defaultConfig]
          nan_coordinates_pass_validation
            [where lat = NaN and lon = "Num 10" and w = onlineWorld
               and e = "quietEnv bothResponse" and cfg = defaultConfig
               and entry = entry]
          c
    by auto
qed

end
